theory Spec2Isabelle
  imports Main
begin

section \<open>Strings and numbers of the host language\<close>

text \<open>
  A JavaScript string is modelled as a \<^typ>\<open>string\<close>: the list of its code units, which for
  ASCII text are also its UTF-8 bytes.  A JavaScript number is modelled as an \<^typ>\<open>int\<close>:
  the integer-valued numbers of magnitude below \<^verbatim>\<open>1e21\<close>, whose \<^verbatim>\<open>String(n)\<close> is the decimal
  numeral; fractions and the exponent form of larger numbers are left out.
\<close>

definition digit_char :: "nat \<Rightarrow> char" where
  "digit_char n = ''0123456789ABCDEF'' ! (n mod 16)"

fun show_nat :: "nat \<Rightarrow> string" where
  "show_nat n = (if n < 10 then [digit_char n] else show_nat (n div 10) @ [digit_char (n mod 10)])"

declare show_nat.simps [simp del]

definition show_int :: "int \<Rightarrow> string" where
  "show_int i = (if i < 0 then CHR ''-'' # show_nat (nat (- i)) else show_nat (nat i))"

definition show_bool :: "bool \<Rightarrow> string" where
  "show_bool b = (if b then ''true'' else ''false'')"

text \<open>\<^verbatim>\<open>Array.prototype.join\<close> on strings: the pieces with the separator between them.\<close>

fun join :: "string \<Rightarrow> string list \<Rightarrow> string" where
  "join sep [] = []"
| "join sep [x] = x"
| "join sep (x # y # ys) = x @ sep @ join sep (y # ys)"

section \<open>URLSearchParams\<close>

text \<open>
  A \<^verbatim>\<open>URLSearchParams\<close> object is its list of name/value pairs.  \<^verbatim>\<open>append\<close> adds a pair at
  the end; \<^verbatim>\<open>set\<close> overwrites the first pair of that name and drops the others, or appends;
  \<^verbatim>\<open>toString\<close> is the \<^verbatim>\<open>application/x-www-form-urlencoded\<close> serializer of the URL standard:
  letters, digits and \<^verbatim>\<open>* - . _\<close> stay, a space becomes \<^verbatim>\<open>+\<close>, every other byte of the
  UTF-8 encoding becomes \<^verbatim>\<open>%HH\<close>; a code unit from 128 to 255 has two such bytes.
\<close>

type_synonym URLSearchParams = "(string \<times> string) list"

definition usp_append :: "string \<Rightarrow> string \<Rightarrow> URLSearchParams \<Rightarrow> URLSearchParams" where
  "usp_append k v ps = ps @ [(k, v)]"

fun usp_set :: "string \<Rightarrow> string \<Rightarrow> URLSearchParams \<Rightarrow> URLSearchParams" where
  "usp_set k v [] = [(k, v)]"
| "usp_set k v ((k', v') # ps) =
     (if k' = k then (k, v) # filter (\<lambda>p. fst p \<noteq> k) ps else (k', v') # usp_set k v ps)"

definition unreserved :: "char \<Rightarrow> bool" where
  "unreserved c = (let n = (of_char c :: nat) in
     (48 \<le> n \<and> n \<le> 57) \<or> (65 \<le> n \<and> n \<le> 90) \<or> (97 \<le> n \<and> n \<le> 122) \<or>
     c = CHR ''*'' \<or> c = CHR ''-'' \<or> c = CHR ''.'' \<or> c = CHR ''_'')"

definition percent_byte :: "nat \<Rightarrow> string" where
  "percent_byte n = [CHR ''%'', digit_char (n div 16), digit_char (n mod 16)]"

definition encode_char :: "char \<Rightarrow> string" where
  "encode_char c =
     (if unreserved c then [c]
      else if c = CHR '' '' then ''+''
      else if (of_char c :: nat) < 128 then percent_byte (of_char c)
      else percent_byte (192 + (of_char c :: nat) div 64)
           @ percent_byte (128 + (of_char c :: nat) mod 64))"

definition form_encode :: "string \<Rightarrow> string" where
  "form_encode s = concat (map encode_char s)"

definition usp_toString :: "URLSearchParams \<Rightarrow> string" where
  "usp_toString ps = join ''&'' (map (\<lambda>(k, v). form_encode k @ ''='' @ form_encode v) ps)"

section \<open>Query Encoder\<close>

text \<open>
  \<^verbatim>\<open>QueryPrimitive = string | number | boolean | null | undefined\<close> and
  \<^verbatim>\<open>QueryParams = Record<string, QueryPrimitive | QueryPrimitive[]>\<close>.  A record is the list of
  its entries in \<^verbatim>\<open>Object.entries\<close> order; its keys are distinct.
\<close>

datatype QueryPrimitive = QString string | QNumber int | QBoolean bool | QNull | QUndefined

datatype QueryValue = QScalar QueryPrimitive | QArray "QueryPrimitive list"

type_synonym QueryParams = "(string \<times> QueryValue) list"

text \<open>The test \<^verbatim>\<open>v == null\<close>.\<close>

fun q_nullish :: "QueryPrimitive \<Rightarrow> bool" where
  "q_nullish QNull = True"
| "q_nullish QUndefined = True"
| "q_nullish _ = False"

text \<open>\<^verbatim>\<open>String(v)\<close> on a primitive.\<close>

fun String_prim :: "QueryPrimitive \<Rightarrow> string" where
  "String_prim (QString s) = s"
| "String_prim (QNumber n) = show_int n"
| "String_prim (QBoolean b) = show_bool b"
| "String_prim QNull = ''null''"
| "String_prim QUndefined = ''undefined''"

text \<open>The inner \<^verbatim>\<open>value.forEach\<close> of \<^verbatim>\<open>buildQueryString\<close>, on an array value.\<close>

fun append_elements :: "string \<Rightarrow> QueryPrimitive list \<Rightarrow> URLSearchParams \<Rightarrow> URLSearchParams" where
  "append_elements key [] usp = usp"
| "append_elements key (v # vs) usp =
     (if q_nullish v then append_elements key vs usp
      else append_elements key vs (usp_append key (String_prim v) usp))"

text \<open>One round of the outer \<^verbatim>\<open>forEach\<close>.\<close>

fun query_entry :: "string \<times> QueryValue \<Rightarrow> URLSearchParams \<Rightarrow> URLSearchParams" where
  "query_entry (key, QArray vs) usp = append_elements key vs usp"
| "query_entry (key, QScalar v) usp =
     (if q_nullish v then usp else usp_set key (String_prim v) usp)"

fun query_entries :: "QueryParams \<Rightarrow> URLSearchParams \<Rightarrow> URLSearchParams" where
  "query_entries [] usp = usp"
| "query_entries (e # es) usp = query_entries es (query_entry e usp)"

text \<open>
  \<^verbatim>\<open>buildQueryString(params?)\<close>: \<^const>\<open>None\<close> is the missing argument.  The source only reads
  \<^verbatim>\<open>params\<close>; the result is the one string.
\<close>

definition buildQueryString :: "QueryParams option \<Rightarrow> string" where
  "buildQueryString params =
     (case params of
        None \<Rightarrow> ''''
      | Some entries \<Rightarrow>
          (let qs = usp_toString (query_entries entries [])
           in if qs \<noteq> [] then ''?'' @ qs else ''''))"

text \<open>
  The pairs the specification asks for, entry by entry: nothing for a null or undefined
  scalar, one pair for any other scalar, one pair under the same name for each element of
  an array that is not null or undefined.
\<close>

fun spec_entry_pairs :: "string \<times> QueryValue \<Rightarrow> (string \<times> string) list" where
  "spec_entry_pairs (key, QScalar v) = (if q_nullish v then [] else [(key, String_prim v)])"
| "spec_entry_pairs (key, QArray vs) =
     map (\<lambda>v. (key, String_prim v)) (filter (\<lambda>v. \<not> q_nullish v) vs)"

definition spec_query_pairs :: "QueryParams \<Rightarrow> (string \<times> string) list" where
  "spec_query_pairs params = concat (map spec_entry_pairs params)"

section \<open>Parsed payloads and thrown values\<close>

text \<open>
  What \<^verbatim>\<open>res.json()\<close> produces, and what a \<^verbatim>\<open>catch\<close> may receive.  An object is the list
  of its entries, keys distinct.  An \<^verbatim>\<open>Error\<close> or \<^verbatim>\<open>DOMException\<close> is the object of its
  \<^verbatim>\<open>name\<close> and \<^verbatim>\<open>message\<close>, the two properties the client reads.
\<close>

datatype json =
    JNull
  | JBool bool
  | JNum int
  | JStr string
  | JArr "json list"
  | JObj "(string \<times> json) list"

definition js_Error :: "string \<Rightarrow> string \<Rightarrow> json" where
  "js_Error name msg = JObj [(''name'', JStr name), (''message'', JStr msg)]"

text \<open>The reason of \<^verbatim>\<open>controller.abort()\<close> called without one.\<close>

definition AbortError :: json where
  "AbortError = js_Error ''AbortError'' ''This operation was aborted''"

fun truthy :: "json \<Rightarrow> bool" where
  "truthy JNull = False"
| "truthy (JBool b) = b"
| "truthy (JNum n) = (n \<noteq> 0)"
| "truthy (JStr s) = (s \<noteq> [])"
| "truthy (JArr _) = True"
| "truthy (JObj _) = True"

text \<open>
  \<^verbatim>\<open>v?.k\<close> for the keys the client reads (\<^verbatim>\<open>msg\<close>, \<^verbatim>\<open>message\<close>, \<^verbatim>\<open>name\<close>):
  \<^const>\<open>None\<close> is \<^verbatim>\<open>undefined\<close>.  Only an object carries such a property.
\<close>

fun opt_prop :: "json \<Rightarrow> string \<Rightarrow> json option" where
  "opt_prop (JObj kvs) k = map_of kvs k"
| "opt_prop _ k = None"

text \<open>\<^verbatim>\<open>a || b\<close> where \<^verbatim>\<open>a\<close> may be undefined.\<close>

fun or_else :: "json option \<Rightarrow> json \<Rightarrow> json" where
  "or_else None d = d"
| "or_else (Some v) d = (if truthy v then v else d)"

text \<open>\<^verbatim>\<open>String(v)\<close>; inside an array, \<^verbatim>\<open>join\<close> turns null into the empty string.\<close>

fun String_json :: "json \<Rightarrow> string" where
  "String_json JNull = ''null''"
| "String_json (JBool b) = show_bool b"
| "String_json (JNum n) = show_int n"
| "String_json (JStr s) = s"
| "String_json (JArr xs) = join '','' (map (\<lambda>x. if x = JNull then [] else String_json x) xs)"
| "String_json (JObj _) = ''[object Object]''"

definition array_join :: "string \<Rightarrow> json list \<Rightarrow> string" where
  "array_join sep xs = join sep (map (\<lambda>x. if x = JNull then [] else String_json x) xs)"

text \<open>\<^verbatim>\<open>JSON.stringify\<close> on a parsed payload.\<close>

definition escape_char :: "char \<Rightarrow> string" where
  "escape_char c =
     (if c = CHR 0x22 then [CHR 0x5C, CHR 0x22]
      else if c = CHR 0x5C then [CHR 0x5C, CHR 0x5C]
      else if c = CHR 0x08 then [CHR 0x5C, CHR ''b'']
      else if c = CHR 0x0C then [CHR 0x5C, CHR ''f'']
      else if c = CHR 0x0A then [CHR 0x5C, CHR ''n'']
      else if c = CHR 0x0D then [CHR 0x5C, CHR ''r'']
      else if c = CHR 0x09 then [CHR 0x5C, CHR ''t'']
      else if (of_char c :: nat) < 32
        then [CHR 0x5C, CHR ''u'', CHR ''0'', CHR ''0'',
              ''0123456789abcdef'' ! ((of_char c :: nat) div 16),
              ''0123456789abcdef'' ! ((of_char c :: nat) mod 16)]
      else [c])"

definition quote :: "string \<Rightarrow> string" where
  "quote s = [CHR 0x22] @ concat (map escape_char s) @ [CHR 0x22]"

fun JSON_stringify :: "json \<Rightarrow> string" where
  "JSON_stringify JNull = ''null''"
| "JSON_stringify (JBool b) = show_bool b"
| "JSON_stringify (JNum n) = show_int n"
| "JSON_stringify (JStr s) = quote s"
| "JSON_stringify (JArr xs) = ''['' @ join '','' (map JSON_stringify xs) @ '']''"
| "JSON_stringify (JObj kvs) =
     ''{'' @ join '','' (map (\<lambda>kv. quote (fst kv) @ '':'' @ JSON_stringify (snd kv)) kvs) @ ''}''"

section \<open>Request bodies\<close>

text \<open>
  \<^verbatim>\<open>body?: unknown\<close>.  A \<^verbatim>\<open>Date\<close> is its \<^verbatim>\<open>toISOString()\<close>, or \<^const>\<open>None\<close> for an invalid
  date, on which \<^verbatim>\<open>toISOString\<close> throws a \<^verbatim>\<open>RangeError\<close>.  A \<^verbatim>\<open>Blob\<close> is its content, a
  \<^verbatim>\<open>File\<close> its name and content.  \<^verbatim>\<open>VThrowing e\<close> is an object that runs code of the caller
  when it is read, such as \<^verbatim>\<open>{ get a() { throw e } }\<close>: \<^verbatim>\<open>Object.entries\<close> and
  \<^verbatim>\<open>JSON.stringify\<close> on it throw the value \<^verbatim>\<open>e\<close>, which may be any value, null included.
\<close>

datatype FormDataValue = FdText string | FdFile string string

type_synonym FormData = "(string \<times> FormDataValue) list"

datatype body_value =
    VUndefined
  | VNull
  | VBool bool
  | VNum int
  | VStr string
  | VDate "string option"
  | VBlob string
  | VFile string string
  | VParams URLSearchParams
  | VFormData FormData
  | VThrowing json
  | VArr "body_value list"
  | VObj "(string \<times> body_value) list"

datatype BodyInit = BodyText string | BodyForm FormData

definition RangeError :: json where
  "RangeError = js_Error ''RangeError'' ''Invalid time value''"

text \<open>
  \<^verbatim>\<open>Object.entries\<close>: the entries of a plain object, the indexed elements of an array, the
  indexed characters of a string; a number, a boolean and the platform objects have no
  enumerable property of their own.  On an object with a throwing getter the call
  throws: the callers, \<^verbatim>\<open>appendParam\<close>, \<^verbatim>\<open>appendFD\<close> and \<^verbatim>\<open>serializeBody\<close>, have that
  branch, and the entries given here for it are never used.
\<close>

definition indexed :: "'a list \<Rightarrow> (string \<times> 'a) list" where
  "indexed xs = zip (map show_nat [0..<length xs]) xs"

fun Object_entries :: "body_value \<Rightarrow> (string \<times> body_value) list" where
  "Object_entries (VObj kvs) = kvs"
| "Object_entries (VArr vs) = indexed vs"
| "Object_entries (VStr s) = indexed (map (\<lambda>c. VStr [c]) s)"
| "Object_entries _ = []"

text \<open>
  \<^verbatim>\<open>appendParam\<close> writes into the closure's \<^verbatim>\<open>params\<close>: the pairs are passed in and returned;
  \<^const>\<open>Inl\<close> carries what was thrown.
\<close>

fun appendParam :: "string \<Rightarrow> body_value \<Rightarrow> URLSearchParams \<Rightarrow> json + URLSearchParams"
  and appendParam_elements :: "string \<Rightarrow> body_value list \<Rightarrow> URLSearchParams \<Rightarrow> json + URLSearchParams"
  and appendParam_entries :: "string \<Rightarrow> (string \<times> body_value) list \<Rightarrow> URLSearchParams \<Rightarrow> json + URLSearchParams"
where
  "appendParam key VUndefined params = Inr (usp_append key [] params)"
| "appendParam key VNull params = Inr (usp_append key [] params)"
| "appendParam key (VDate d) params =
     (case d of None \<Rightarrow> Inl RangeError | Some s \<Rightarrow> Inr (usp_append key s params))"
| "appendParam key (VArr vs) params = appendParam_elements key vs params"
| "appendParam key (VObj kvs) params = appendParam_entries key kvs params"
| "appendParam key (VBlob c) params = Inr params"
| "appendParam key (VFile n c) params = Inr params"
| "appendParam key (VParams ps) params = Inr params"
| "appendParam key (VFormData fd) params = Inr params"
| "appendParam key (VBool b) params = Inr (usp_append key (show_bool b) params)"
| "appendParam key (VNum n) params = Inr (usp_append key (show_int n) params)"
| "appendParam key (VStr s) params = Inr (usp_append key s params)"
| "appendParam key (VThrowing e) params = Inl e"
| "appendParam_elements key [] params = Inr params"
| "appendParam_elements key (v # vs) params =
     (case appendParam (key @ ''[]'') v params of
        Inl e \<Rightarrow> Inl e
      | Inr params' \<Rightarrow> appendParam_elements key vs params')"
| "appendParam_entries key [] params = Inr params"
| "appendParam_entries key ((subKey, subVal) # kvs) params =
     (case appendParam (key @ ''['' @ subKey @ '']'') subVal params of
        Inl e \<Rightarrow> Inl e
      | Inr params' \<Rightarrow> appendParam_entries key kvs params')"

text \<open>The top-level \<^verbatim>\<open>Object.entries(body).forEach(([k, v]) => appendParam(k, v))\<close>.\<close>

fun appendParam_all :: "(string \<times> body_value) list \<Rightarrow> URLSearchParams \<Rightarrow> json + URLSearchParams" where
  "appendParam_all [] params = Inr params"
| "appendParam_all ((k, v) # kvs) params =
     (case appendParam k v params of
        Inl e \<Rightarrow> Inl e
      | Inr params' \<Rightarrow> appendParam_all kvs params')"

text \<open>
  \<^verbatim>\<open>appendFD\<close>, likewise over the closure's \<^verbatim>\<open>fd\<close>.  A blob appended without a file name
  gets the platform's \<^verbatim>\<open>blob\<close>.
\<close>

fun appendFD :: "string \<Rightarrow> body_value \<Rightarrow> FormData \<Rightarrow> json + FormData"
  and appendFD_elements :: "string \<Rightarrow> body_value list \<Rightarrow> FormData \<Rightarrow> json + FormData"
  and appendFD_entries :: "string \<Rightarrow> (string \<times> body_value) list \<Rightarrow> FormData \<Rightarrow> json + FormData"
where
  "appendFD key VUndefined fd = Inr (fd @ [(key, FdText [])])"
| "appendFD key VNull fd = Inr (fd @ [(key, FdText [])])"
| "appendFD key (VFile n c) fd = Inr (fd @ [(key, FdFile c (if n \<noteq> [] then n else ''file''))])"
| "appendFD key (VBlob c) fd = Inr (fd @ [(key, FdFile c ''blob'')])"
| "appendFD key (VDate d) fd =
     (case d of None \<Rightarrow> Inl RangeError | Some s \<Rightarrow> Inr (fd @ [(key, FdText s)]))"
| "appendFD key (VArr vs) fd = appendFD_elements key vs fd"
| "appendFD key (VObj kvs) fd = appendFD_entries key kvs fd"
| "appendFD key (VParams ps) fd = Inr fd"
| "appendFD key (VFormData d) fd = Inr fd"
| "appendFD key (VBool b) fd = Inr (fd @ [(key, FdText (show_bool b))])"
| "appendFD key (VNum n) fd = Inr (fd @ [(key, FdText (show_int n))])"
| "appendFD key (VStr s) fd = Inr (fd @ [(key, FdText s)])"
| "appendFD key (VThrowing e) fd = Inl e"
| "appendFD_elements key [] fd = Inr fd"
| "appendFD_elements key (v # vs) fd =
     (case appendFD (key @ ''[]'') v fd of
        Inl e \<Rightarrow> Inl e
      | Inr fd' \<Rightarrow> appendFD_elements key vs fd')"
| "appendFD_entries key [] fd = Inr fd"
| "appendFD_entries key ((subKey, subVal) # kvs) fd =
     (case appendFD (key @ ''['' @ subKey @ '']'') subVal fd of
        Inl e \<Rightarrow> Inl e
      | Inr fd' \<Rightarrow> appendFD_entries key kvs fd')"

fun appendFD_all :: "(string \<times> body_value) list \<Rightarrow> FormData \<Rightarrow> json + FormData" where
  "appendFD_all [] fd = Inr fd"
| "appendFD_all ((k, v) # kvs) fd =
     (case appendFD k v fd of
        Inl e \<Rightarrow> Inl e
      | Inr fd' \<Rightarrow> appendFD_all kvs fd')"

text \<open>
  \<^verbatim>\<open>JSON.stringify\<close> on a body: a date goes through \<^verbatim>\<open>toJSON\<close> (null when invalid), a
  platform object is \<^verbatim>\<open>{}\<close>, an undefined property is left out and an undefined element
  is null; \<^const>\<open>Inl\<close> carries what a getter threw.
\<close>

fun toJSON :: "body_value \<Rightarrow> json + json option"
  and toJSON_elements :: "body_value list \<Rightarrow> json + json list"
  and toJSON_entries :: "(string \<times> body_value) list \<Rightarrow> json + (string \<times> json) list"
where
  "toJSON VUndefined = Inr None"
| "toJSON VNull = Inr (Some JNull)"
| "toJSON (VBool b) = Inr (Some (JBool b))"
| "toJSON (VNum n) = Inr (Some (JNum n))"
| "toJSON (VStr s) = Inr (Some (JStr s))"
| "toJSON (VDate d) = Inr (Some (case d of None \<Rightarrow> JNull | Some s \<Rightarrow> JStr s))"
| "toJSON (VBlob c) = Inr (Some (JObj []))"
| "toJSON (VFile n c) = Inr (Some (JObj []))"
| "toJSON (VParams ps) = Inr (Some (JObj []))"
| "toJSON (VFormData fd) = Inr (Some (JObj []))"
| "toJSON (VThrowing e) = Inl e"
| "toJSON (VArr vs) =
     (case toJSON_elements vs of Inl e \<Rightarrow> Inl e | Inr js \<Rightarrow> Inr (Some (JArr js)))"
| "toJSON (VObj kvs) =
     (case toJSON_entries kvs of Inl e \<Rightarrow> Inl e | Inr js \<Rightarrow> Inr (Some (JObj js)))"
| "toJSON_elements [] = Inr []"
| "toJSON_elements (v # vs) =
     (case toJSON v of
        Inl e \<Rightarrow> Inl e
      | Inr j \<Rightarrow>
          (case toJSON_elements vs of
             Inl e \<Rightarrow> Inl e
           | Inr js \<Rightarrow> Inr ((case j of None \<Rightarrow> JNull | Some j' \<Rightarrow> j') # js)))"
| "toJSON_entries [] = Inr []"
| "toJSON_entries ((k, v) # kvs) =
     (case toJSON v of
        Inl e \<Rightarrow> Inl e
      | Inr j \<Rightarrow>
          (case toJSON_entries kvs of
             Inl e \<Rightarrow> Inl e
           | Inr js \<Rightarrow> Inr (case j of None \<Rightarrow> js | Some j' \<Rightarrow> (k, j') # js)))"

section \<open>The client\<close>

datatype HttpMethod = GET | POST | PUT | DELETE | PATCH

datatype ApiMode = ModeJson | ModeForm | ModeUrlencoded

record Api =
  baseURL :: string
  mode :: ApiMode
  defaultTimeoutMs :: int

text \<open>The constructor: \<^verbatim>\<open>mode\<close> defaults to json, \<^verbatim>\<open>options?.timeoutMs ?? 30000\<close>.\<close>

definition new_Api :: "string \<Rightarrow> ApiMode option \<Rightarrow> int option \<Rightarrow> Api" where
  "new_Api url m t =
     \<lparr>baseURL = url,
      mode = (case m of None \<Rightarrow> ModeJson | Some m' \<Rightarrow> m'),
      defaultTimeoutMs = (case t of None \<Rightarrow> 30000 | Some t' \<Rightarrow> t')\<rparr>"

text \<open>
  A \<^verbatim>\<open>Record<string, string>\<close> of headers is the list of its entries in insertion order.
  Assigning a key overwrites it in place or adds it at the end; a spread assigns the
  entries of the source one after the other.
\<close>

type_synonym Headers = "(string \<times> string) list"

fun obj_set :: "string \<Rightarrow> 'v \<Rightarrow> (string \<times> 'v) list \<Rightarrow> (string \<times> 'v) list" where
  "obj_set k v [] = [(k, v)]"
| "obj_set k v ((k', v') # kvs) =
     (if k' = k then (k, v) # kvs else (k', v') # obj_set k v kvs)"

fun obj_spread :: "(string \<times> 'v) list \<Rightarrow> (string \<times> 'v) list \<Rightarrow> (string \<times> 'v) list" where
  "obj_spread target [] = target"
| "obj_spread target ((k, v) # kvs) = obj_spread (obj_set k v target) kvs"

definition buildBaseHeaders :: "Api \<Rightarrow> Headers" where
  "buildBaseHeaders api =
     (let headers = [(''Accept'', ''application/json'')]
      in if mode api = ModeJson then obj_set ''Content-Type'' ''application/json'' headers
         else if mode api = ModeUrlencoded
           then obj_set ''Content-Type'' ''application/x-www-form-urlencoded'' headers
         else headers)"

text \<open>\<^verbatim>\<open>if (token)\<close>: a token that is present and not the empty string.\<close>

definition buildHeaders :: "Api \<Rightarrow> string option \<Rightarrow> Headers" where
  "buildHeaders api token =
     (let headers = buildBaseHeaders api
      in case token of
           None \<Rightarrow> headers
         | Some t \<Rightarrow> if t \<noteq> [] then obj_set ''Authorization'' (''Bearer '' @ t) headers else headers)"

text \<open>
  \<^verbatim>\<open>serializeBody\<close>.  A body that is already a \<^verbatim>\<open>URLSearchParams\<close> (url-encoded mode) or a
  \<^verbatim>\<open>FormData\<close> (multipart mode) passes through; \<^term>\<open>Inr None\<close> is \<^verbatim>\<open>undefined\<close>.  On a
  body with a throwing getter, \<^verbatim>\<open>JSON.stringify(body)\<close> and \<^verbatim>\<open>Object.entries(body)\<close> throw
  what the getter throws.
\<close>

definition serializeBody :: "Api \<Rightarrow> body_value \<Rightarrow> json + BodyInit option" where
  "serializeBody api body =
     (if body = VUndefined \<or> body = VNull then Inr None
      else if mode api = ModeJson
        then (case toJSON body of
                Inl e \<Rightarrow> Inl e
              | Inr j \<Rightarrow> Inr (map_option (BodyText \<circ> JSON_stringify) j))
      else if mode api = ModeUrlencoded
        then (case body of
                VParams ps \<Rightarrow> Inr (Some (BodyText (usp_toString ps)))
              | VThrowing e \<Rightarrow> Inl e
              | _ \<Rightarrow> (case appendParam_all (Object_entries body) [] of
                         Inl e \<Rightarrow> Inl e
                       | Inr params \<Rightarrow> Inr (Some (BodyText (usp_toString params)))))
      else (case body of
              VFormData fd \<Rightarrow> Inr (Some (BodyForm fd))
            | VThrowing e \<Rightarrow> Inl e
            | _ \<Rightarrow> (case appendFD_all (Object_entries body) [] of
                       Inl e \<Rightarrow> Inl e
                     | Inr fd \<Rightarrow> Inr (Some (BodyForm fd)))))"

section \<open>Responses and envelopes\<close>

text \<open>
  A response as the client reads it: \<^verbatim>\<open>json_body\<close> and \<^verbatim>\<open>text_body\<close> are what \<^verbatim>\<open>res.json()\<close>
  and \<^verbatim>\<open>res.text()\<close> resolve to, \<^const>\<open>None\<close> when the promise rejects; \<^verbatim>\<open>content_type\<close> is
  \<^verbatim>\<open>res.headers.get('content-type')\<close>; \<^verbatim>\<open>res.ok\<close> is a status from 200 to 299.
\<close>

record Response =
  status :: nat
  statusText :: string
  content_type :: "string option"
  json_body :: "json option"
  text_body :: "string option"

definition ok :: "Response \<Rightarrow> bool" where
  "ok res = (200 \<le> status res \<and> status res \<le> 299)"

text \<open>\<^verbatim>\<open>ApiError\<close> and \<^verbatim>\<open>ApiResponse\<close>: an absent field is \<^const>\<open>None\<close>.\<close>

record ApiError =
  err_status :: nat
  err_message :: json
  err_detail :: "json option"

record ApiResponse =
  success :: bool
  data :: "json option"
  message :: "json option"
  error :: "ApiError option"

definition toLowerCase :: "string \<Rightarrow> string" where
  "toLowerCase s =
     map (\<lambda>c. if 65 \<le> (of_char c :: nat) \<and> (of_char c :: nat) \<le> 90
              then char_of ((of_char c :: nat) + 32) else c) s"

fun startsWith :: "string \<Rightarrow> string \<Rightarrow> bool" where
  "startsWith s [] = True"
| "startsWith [] (p # ps) = False"
| "startsWith (c # cs) (p # ps) = (c = p \<and> startsWith cs ps)"

fun str_includes :: "string \<Rightarrow> string \<Rightarrow> bool" where
  "str_includes [] p = (p = [])"
| "str_includes (c # cs) p = (startsWith (c # cs) p \<or> str_includes cs p)"

text \<open>What the client does besides returning, in the order it does it.\<close>

record FetchInit =
  f_method :: HttpMethod
  f_body :: "BodyInit option"
  f_cache :: string
  f_headers :: Headers

datatype effect =
    SetTimeout int
  | ClearTimeout
  | Fetch string FetchInit
  | ReadJson
  | ReadText
  | ConsoleError

text \<open>Lines 223 to 233: the body is read by content type; a failed read leaves null.\<close>

definition parse_body :: "Response \<Rightarrow> json \<times> effect list" where
  "parse_body res =
     (let contentType = toLowerCase (case content_type res of None \<Rightarrow> [] | Some c \<Rightarrow> c)
      in if str_includes contentType ''application/json''
         then (case json_body res of None \<Rightarrow> JNull | Some v \<Rightarrow> v, [ReadJson])
         else (case text_body res of None \<Rightarrow> JNull | Some s \<Rightarrow> JStr s, [ReadText]))"

text \<open>The callback of \<^verbatim>\<open>detail.map\<close>.\<close>

definition item_message :: "json \<Rightarrow> json" where
  "item_message item =
     (case item of
        JStr s \<Rightarrow> JStr s
      | _ \<Rightarrow> or_else (opt_prop item ''msg'') (JStr (JSON_stringify item)))"

text \<open>
  Lines 238 to 263: the message and the detail of a failing response.  \<^verbatim>\<open>typeof\<close> answers
  \<^verbatim>\<open>object\<close> on an object, an array and null; only an object has the keys \<^verbatim>\<open>detail\<close> and
  \<^verbatim>\<open>message\<close>.
\<close>

definition extract_error :: "Response \<Rightarrow> json \<Rightarrow> json \<times> json option" where
  "extract_error res parsed =
     (let message = JStr (if statusText res \<noteq> [] then statusText res else ''Request failed'')
      in case parsed of
           JObj kvs \<Rightarrow>
             (case map_of kvs ''detail'' of
                Some detail \<Rightarrow>
                  (case detail of
                     JArr items \<Rightarrow> (JStr (array_join ''; '' (map item_message items)), Some detail)
                   | JStr s \<Rightarrow> (JStr s, Some detail)
                   | JObj _ \<Rightarrow>
                       (or_else (opt_prop detail ''msg'') (JStr (JSON_stringify detail)), Some detail)
                   | JNull \<Rightarrow>
                       (or_else (opt_prop detail ''msg'') (JStr (JSON_stringify detail)), Some detail)
                   | _ \<Rightarrow> (message, Some detail))
              | None \<Rightarrow>
                  (case map_of kvs ''message'' of
                     Some m \<Rightarrow> (JStr (String_json m), None)
                   | None \<Rightarrow> (message, None)))
         | JStr s \<Rightarrow> (JStr (take 300 s), None)
         | _ \<Rightarrow> (message, None))"

text \<open>Lines 213 to 277: from a response to the envelope.\<close>

definition normalize :: "Response \<Rightarrow> ApiResponse \<times> effect list" where
  "normalize res =
     (if status res = 204
      then (\<lparr>success = True, data = Some (JObj []), message = Some (JStr ''No Content''),
             error = None\<rparr>, [])
      else (let (parsed, reads) = parse_body res
            in if \<not> ok res
               then (let (msg, detail) = extract_error res parsed
                     in (\<lparr>success = False, data = None, message = Some msg,
                          error = Some \<lparr>err_status = status res, err_message = msg,
                                         err_detail = detail\<rparr>\<rparr>,
                         reads @ [ConsoleError]))
               else (\<lparr>success = True, data = Some parsed,
                      message = Some (or_else (opt_prop parsed ''message'') (JStr ''OK'')),
                      error = None\<rparr>, reads)))"

text \<open>
  Lines 278 to 287.  Reading \<^verbatim>\<open>err.name\<close> on null throws a \<^verbatim>\<open>TypeError\<close> out of the
  \<^verbatim>\<open>catch\<close> (its message is given in short); on every other value a missing property
  reads as undefined.
\<close>

definition catch_block :: "json \<Rightarrow> json + ApiResponse" where
  "catch_block e =
     (if e = JNull then Inl (js_Error ''TypeError'' ''Cannot read properties of null'')
      else (let msg = (if opt_prop e ''name'' = Some (JStr ''AbortError'')
                       then JStr ''Request aborted''
                       else or_else (opt_prop e ''message'') (JStr ''Network error''))
            in Inr \<lparr>success = False, data = None, message = Some msg,
                    error = Some \<lparr>err_status = 0, err_message = msg, err_detail = None\<rparr>\<rparr>))"

section \<open>Cancellation and the transport\<close>

text \<open>
  The caller's signal at the time of the call: already aborted with its reason, or not.
  \<^verbatim>\<open>init\<close> carries the token, the caller's headers (a plain record of strings, the
  form that the spread of the source merges key by key), the signal and the timeout.
  The remaining fields of \<^verbatim>\<open>RequestInit\<close> are handed to \<^verbatim>\<open>fetch\<close> as they are and are
  left out.
\<close>

datatype AbortSignal = Aborted json | Pending

record RequestInit =
  token :: "string option"
  headers :: "Headers option"
  signal :: "AbortSignal option"
  timeoutMs :: "int option"

text \<open>
  The world outside the client.  \<^verbatim>\<open>fetch\<close> is what the network does with a request that is
  not cancelled: a response, or a rejection with a \<^verbatim>\<open>TypeError\<close> of the given message.
  \<^verbatim>\<open>interrupt\<close> is the source that fires first while the call is pending, if one does
  before the transport settles: the timer, or the caller's signal with its reason.
\<close>

datatype Outcome = Responds Response | FailsWith string

datatype AbortEvent = TimerElapsed | SignalFired json

record Transport =
  fetch :: "string \<Rightarrow> FetchInit \<Rightarrow> Outcome"
  interrupt :: "AbortEvent option"

text \<open>
  Lines 186 to 192: the state of the composite controller after the loop over the
  signals (its abort reason, if aborted), and whether a listener was attached.
\<close>

definition controller_after_signals :: "AbortSignal option \<Rightarrow> json option" where
  "controller_after_signals sig =
     (case sig of Some (Aborted reason) \<Rightarrow> Some reason | _ \<Rightarrow> None)"

definition listener_attached :: "AbortSignal option \<Rightarrow> bool" where
  "listener_attached sig = (sig = Some Pending)"

text \<open>
  \<^verbatim>\<open>await fetch(url, {..., signal: controller.signal})\<close>.  A controller that is aborted
  rejects the call with its reason.  The timer's callback is \<^verbatim>\<open>controller.abort()\<close>, whose
  reason is the \<^verbatim>\<open>AbortError\<close>; the listener's is \<^verbatim>\<open>controller.abort(sig.reason)\<close>.  A source
  that was not armed cannot fire.
\<close>

definition await_fetch ::
    "Transport \<Rightarrow> bool \<Rightarrow> bool \<Rightarrow> json option \<Rightarrow> string \<Rightarrow> FetchInit \<Rightarrow> json + Response" where
  "await_fetch tr timer listener controller url fi =
     (let settled = (case fetch tr url fi of
                       Responds res \<Rightarrow> Inr res
                     | FailsWith m \<Rightarrow> Inl (js_Error ''TypeError'' m))
      in case controller of
           Some reason \<Rightarrow> Inl reason
         | None \<Rightarrow>
             (case interrupt tr of
                None \<Rightarrow> settled
              | Some TimerElapsed \<Rightarrow> if timer then Inl AbortError else settled
              | Some (SignalFired reason) \<Rightarrow> if listener then Inl reason else settled))"

text \<open>Lines 196 to 204: the headers that reach \<^verbatim>\<open>fetch\<close>.\<close>

definition finalHeaders :: "Api \<Rightarrow> RequestInit \<Rightarrow> Headers" where
  "finalHeaders api init =
     obj_set ''Cache-Control'' ''no-store, max-age=0''
       (obj_spread (buildHeaders api (token init))
          (case headers init of None \<Rightarrow> [] | Some h \<Rightarrow> h))"

text \<open>The \<^verbatim>\<open>try\<close> block: \<^const>\<open>Inl\<close> is what it throws.\<close>

definition try_block ::
    "Api \<Rightarrow> Transport \<Rightarrow> bool \<Rightarrow> string \<Rightarrow> HttpMethod \<Rightarrow> body_value \<Rightarrow> RequestInit
      \<Rightarrow> (json + ApiResponse) \<times> effect list" where
  "try_block api tr timer path method body init =
     (case serializeBody api body of
        Inl e \<Rightarrow> (Inl e, [])
      | Inr b \<Rightarrow>
          (let url = baseURL api @ path;
               fi = \<lparr>f_method = method, f_body = b, f_cache = ''no-store'',
                     f_headers = finalHeaders api init\<rparr>
           in case await_fetch tr timer (listener_attached (signal init))
                     (controller_after_signals (signal init)) url fi of
                Inl e \<Rightarrow> (Inl e, [Fetch url fi])
              | Inr res \<Rightarrow>
                  (let (envelope, fx) = normalize res
                   in (Inr envelope, Fetch url fi # fx))))"

text \<open>
  \<^verbatim>\<open>request\<close>: the timer is set when \<^verbatim>\<open>timeoutMs && timeoutMs > 0\<close>, the \<^verbatim>\<open>try\<close> block
  runs, the \<^verbatim>\<open>catch\<close> turns what it throws into an envelope, and \<^verbatim>\<open>finally\<close> clears the
  timer that was set.  \<^const>\<open>Inl\<close> in the result is a rejected promise.
\<close>

definition request ::
    "Api \<Rightarrow> Transport \<Rightarrow> string \<Rightarrow> HttpMethod \<Rightarrow> body_value \<Rightarrow> RequestInit
      \<Rightarrow> (json + ApiResponse) \<times> effect list" where
  "request api tr path method body init =
     (let t = (case timeoutMs init of None \<Rightarrow> defaultTimeoutMs api | Some ms \<Rightarrow> ms);
          timer = (t \<noteq> 0 \<and> t > 0);
          (attempt, fx) = try_block api tr timer path method body init;
          result = (case attempt of Inl e \<Rightarrow> catch_block e | Inr envelope \<Rightarrow> Inr envelope)
      in (result,
          (if timer then [SetTimeout t] else []) @ fx @ (if timer then [ClearTimeout] else [])))"

text \<open>The verb methods: each passes \<^verbatim>\<open>{ token }\<close> and nothing else as \<^verbatim>\<open>init\<close>.\<close>

definition token_only :: "string option \<Rightarrow> RequestInit" where
  "token_only tok = \<lparr>token = tok, headers = None, signal = None, timeoutMs = None\<rparr>"

definition get ::
    "Api \<Rightarrow> Transport \<Rightarrow> string \<Rightarrow> QueryParams option \<Rightarrow> string option
      \<Rightarrow> (json + ApiResponse) \<times> effect list" where
  "get api tr path params tok =
     request api tr (path @ buildQueryString params) GET VUndefined (token_only tok)"

definition post ::
    "Api \<Rightarrow> Transport \<Rightarrow> string \<Rightarrow> body_value \<Rightarrow> string option
      \<Rightarrow> (json + ApiResponse) \<times> effect list" where
  "post api tr path body tok = request api tr path POST body (token_only tok)"

definition put ::
    "Api \<Rightarrow> Transport \<Rightarrow> string \<Rightarrow> body_value \<Rightarrow> string option
      \<Rightarrow> (json + ApiResponse) \<times> effect list" where
  "put api tr path body tok = request api tr path PUT body (token_only tok)"

definition patch ::
    "Api \<Rightarrow> Transport \<Rightarrow> string \<Rightarrow> body_value \<Rightarrow> string option
      \<Rightarrow> (json + ApiResponse) \<times> effect list" where
  "patch api tr path body tok = request api tr path PATCH body (token_only tok)"

definition delete ::
    "Api \<Rightarrow> Transport \<Rightarrow> string \<Rightarrow> string option \<Rightarrow> (json + ApiResponse) \<times> effect list" where
  "delete api tr path tok = request api tr path DELETE VUndefined (token_only tok)"

definition deleteWithBody ::
    "Api \<Rightarrow> Transport \<Rightarrow> string \<Rightarrow> body_value \<Rightarrow> string option
      \<Rightarrow> (json + ApiResponse) \<times> effect list" where
  "deleteWithBody api tr path body tok = request api tr path DELETE body (token_only tok)"

section \<open>The flattening rules as the specification words them\<close>

text \<open>
  Bracket-path flattening, rule by rule: a leaf scalar gives \<^verbatim>\<open>key=value\<close>, null and
  undefined give \<^verbatim>\<open>key=\<close>, a date gives its ISO-8601 string, an array recurses into each
  element under \<^verbatim>\<open>key[]\<close>, a nested object into each property under \<^verbatim>\<open>key[subkey]\<close>; the
  output is the concatenation.  The rules name no other kind of value.
\<close>

fun spec_flatten :: "string \<Rightarrow> body_value \<Rightarrow> (string \<times> string) list" where
  "spec_flatten key (VBool b) = [(key, show_bool b)]"
| "spec_flatten key (VNum n) = [(key, show_int n)]"
| "spec_flatten key (VStr s) = [(key, s)]"
| "spec_flatten key VNull = [(key, [])]"
| "spec_flatten key VUndefined = [(key, [])]"
| "spec_flatten key (VDate (Some s)) = [(key, s)]"
| "spec_flatten key (VArr vs) = concat (map (spec_flatten (key @ ''[]'')) vs)"
| "spec_flatten key (VObj kvs) =
     concat (map (\<lambda>kv. spec_flatten (key @ ''['' @ fst kv @ '']'') (snd kv)) kvs)"
| "spec_flatten key _ = []"

definition spec_flatten_body :: "(string \<times> body_value) list \<Rightarrow> (string \<times> string) list" where
  "spec_flatten_body kvs = concat (map (\<lambda>kv. spec_flatten (fst kv) (snd kv)) kvs)"

text \<open>The values those rules speak of: scalars, null, undefined, valid dates, and arrays
  and objects of such values.\<close>

fun flattenable :: "body_value \<Rightarrow> bool" where
  "flattenable (VDate None) = False"
| "flattenable (VBlob c) = False"
| "flattenable (VFile n c) = False"
| "flattenable (VParams ps) = False"
| "flattenable (VFormData fd) = False"
| "flattenable (VThrowing e) = False"
| "flattenable (VArr vs) = (\<forall>v \<in> set vs. flattenable v)"
| "flattenable (VObj kvs) = (\<forall>kv \<in> set kvs. flattenable (snd kv))"
| "flattenable _ = True"

text \<open>A body without a binary value: no blob and no file at any depth.  An object with
  a throwing getter holds none.\<close>

fun no_binary :: "body_value \<Rightarrow> bool" where
  "no_binary (VBlob c) = False"
| "no_binary (VFile n c) = False"
| "no_binary (VArr vs) = (\<forall>v \<in> set vs. no_binary v)"
| "no_binary (VObj kvs) = (\<forall>kv \<in> set kvs. no_binary (snd kv))"
| "no_binary _ = True"

text \<open>A body that the caller has already encoded for one of the two modes.\<close>

fun prebuilt :: "body_value \<Rightarrow> bool" where
  "prebuilt (VParams ps) = True"
| "prebuilt (VFormData fd) = True"
| "prebuilt _ = False"

definition text_field :: "string \<times> string \<Rightarrow> string \<times> FormDataValue" where
  "text_field p = (fst p, FdText (snd p))"


section \<open>Vocabulary for the properties of requests\<close>

text \<open>The failure envelope \<^verbatim>\<open>{ success: false, error: { status, message, detail }, message }\<close>.\<close>

definition failure :: "nat \<Rightarrow> json \<Rightarrow> json option \<Rightarrow> ApiResponse" where
  "failure st msg detail =
     \<lparr>success = False, data = None, message = Some msg,
      error = Some \<lparr>err_status = st, err_message = msg, err_detail = detail\<rparr>\<rparr>"

text \<open>The envelope \<^verbatim>\<open>{ success: true, data: {}, message: "No Content" }\<close>.\<close>

definition no_content :: ApiResponse where
  "no_content =
     \<lparr>success = True, data = Some (JObj []), message = Some (JStr ''No Content''), error = None\<rparr>"

text \<open>
  The message of one element of a \<^verbatim>\<open>detail\<close> array: a string as it is; otherwise the
  string form of its \<^verbatim>\<open>msg\<close> field when it has one that is truthy; otherwise its
  serialized form.
\<close>

definition spec_item_text :: "json \<Rightarrow> string" where
  "spec_item_text item =
     (case item of
        JStr s \<Rightarrow> s
      | JObj kvs \<Rightarrow>
          (case map_of kvs ''msg'' of
             Some m \<Rightarrow> if truthy m then String_json m else JSON_stringify item
           | None \<Rightarrow> JSON_stringify item)
      | _ \<Rightarrow> JSON_stringify item)"

text \<open>The response's status phrase, or the fallback when it is absent.\<close>

definition status_phrase :: "Response \<Rightarrow> json" where
  "status_phrase res = JStr (if statusText res = [] then ''Request failed'' else statusText res)"

text \<open>The effects that concern the timer.\<close>

fun is_timer_effect :: "effect \<Rightarrow> bool" where
  "is_timer_effect (SetTimeout t) = True"
| "is_timer_effect ClearTimeout = True"
| "is_timer_effect _ = False"

text \<open>Two transports for concrete runs: one answers every request with the same response,
  one fails every request with the same message.\<close>

definition answering :: "Response \<Rightarrow> string \<Rightarrow> FetchInit \<Rightarrow> Outcome" where
  "answering res url fi = Responds res"

definition failing :: "string \<Rightarrow> string \<Rightarrow> FetchInit \<Rightarrow> Outcome" where
  "failing m url fi = FailsWith m"


section \<open>Properties of the Query Encoder\<close>

lemma usp_set_fresh: "k \<notin> fst ` set ps \<Longrightarrow> usp_set k v ps = ps @ [(k, v)]"
  by (induction ps) auto

lemma append_elements_eq:
  "append_elements key vs usp = usp @ spec_entry_pairs (key, QArray vs)"
  by (induction vs arbitrary: usp) (simp_all add: usp_append_def)

lemma spec_entry_pairs_keys: "fst ` set (spec_entry_pairs (k, v)) \<subseteq> {k}"
  by (cases v) auto

lemma query_entry_eq:
  assumes "fst e \<notin> fst ` set usp"
  shows "query_entry e usp = usp @ spec_entry_pairs e"
proof (cases e)
  case (Pair k v)
  with assms have "k \<notin> fst ` set usp" by simp
  with Pair show ?thesis
    by (cases v) (simp_all add: append_elements_eq usp_set_fresh)
qed

lemma query_entries_eq:
  "distinct (map fst es) \<Longrightarrow> fst ` set es \<inter> fst ` set usp = {} \<Longrightarrow>
   query_entries es usp = usp @ concat (map spec_entry_pairs es)"
proof (induction es arbitrary: usp)
  case Nil
  then show ?case by simp
next
  case (Cons e es)
  obtain k v where e: "e = (k, v)" by (cases e)
  from Cons.prems have fresh: "fst e \<notin> fst ` set usp" by auto
  have keys: "fst ` set (spec_entry_pairs e) \<subseteq> {k}"
    unfolding e by (rule spec_entry_pairs_keys)
  from Cons.prems e have "k \<notin> fst ` set es" by auto
  with keys Cons.prems have "fst ` set es \<inter> fst ` set (usp @ spec_entry_pairs e) = {}"
    by auto
  moreover from Cons.prems have "distinct (map fst es)" by simp
  ultimately have "distinct (map fst es)"
      "fst ` set es \<inter> fst ` set (usp @ spec_entry_pairs e) = {}"
    by simp_all
  then have "query_entries es (usp @ spec_entry_pairs e) =
      (usp @ spec_entry_pairs e) @ concat (map spec_entry_pairs es)"
    by (rule Cons.IH)
  then show ?case by (simp add: query_entry_eq [OF fresh])
qed

lemma join_nonempty: "x \<noteq> [] \<Longrightarrow> join sep (x # xs) \<noteq> []"
  by (cases xs) simp_all

lemma usp_toString_empty_iff: "usp_toString ps = [] \<longleftrightarrow> ps = []"
proof (cases ps)
  case Nil
  then show ?thesis by (simp add: usp_toString_def)
next
  case (Cons p ps')
  obtain k v where "p = (k, v)" by (cases p)
  with Cons show ?thesis
    by (simp add: usp_toString_def join_nonempty)
qed

lemma buildQueryString_prefix:
  "buildQueryString p = [] \<or> take 1 (buildQueryString p) = ''?''"
  by (cases p) (simp_all add: buildQueryString_def Let_def)

text \<open>
  C4.  For a mapping of query parameters (a record, so with distinct keys), the pairs
  the encoder collects are exactly: none for a key whose value is null or undefined; for
  an array value one pair per element that is not null or undefined, under the key
  itself with no bracket suffix; one pair for any other scalar.  So a key with a null or
  undefined value does not occur among the names, and every name is a key of the input.
  The result is the empty string when there is no pair, and otherwise \<^verbatim>\<open>?\<close> followed by
  the encoded pairs; in every case, also without a mapping, it is empty or begins with
  \<^verbatim>\<open>?\<close>.  The function returns the string only: the mapping is read, never written.
\<close>

theorem buildQueryString_omits_nullish:
  assumes "distinct (map fst params)"
  shows "query_entries params [] = spec_query_pairs params
    \<and> buildQueryString (Some params) =
        (if spec_query_pairs params = [] then []
         else ''?'' @ usp_toString (spec_query_pairs params))
    \<and> (\<forall>k v. (k, QScalar v) \<in> set params \<and> q_nullish v
          \<longrightarrow> k \<notin> fst ` set (query_entries params []))
    \<and> fst ` set (query_entries params []) \<subseteq> fst ` set params
    \<and> (buildQueryString (Some params) = [] \<or> take 1 (buildQueryString (Some params)) = ''?'')
    \<and> buildQueryString None = []"
proof -
  have pairs: "query_entries params [] = spec_query_pairs params"
    using query_entries_eq [OF assms, of "[]"] by (simp add: spec_query_pairs_def)
  have str: "buildQueryString (Some params) =
        (if spec_query_pairs params = [] then []
         else ''?'' @ usp_toString (spec_query_pairs params))"
    by (simp add: buildQueryString_def pairs Let_def usp_toString_empty_iff)
  have omit: "k \<notin> fst ` set (spec_query_pairs params)"
    if "(k, QScalar v) \<in> set params" "q_nullish v" for k v
  proof
    assume "k \<in> fst ` set (spec_query_pairs params)"
    then obtain e where e: "e \<in> set params" "k \<in> fst ` set (spec_entry_pairs e)"
      by (auto simp: spec_query_pairs_def)
    obtain k' w where kw: "e = (k', w)" by (cases e)
    from e(2) spec_entry_pairs_keys [of k' w] have "k' = k" unfolding kw by blast
    with e(1) kw have "(k, w) \<in> set params" by simp
    from eq_key_imp_eq_value [OF assms this that(1)] have "w = QScalar v" .
    with e(2) that(2) kw show False by simp
  qed
  have sub: "fst ` set (spec_query_pairs params) \<subseteq> fst ` set params"
  proof
    fix k assume "k \<in> fst ` set (spec_query_pairs params)"
    then obtain e where e: "e \<in> set params" "k \<in> fst ` set (spec_entry_pairs e)"
      by (auto simp: spec_query_pairs_def)
    obtain k' w where kw: "e = (k', w)" by (cases e)
    from e(2) spec_entry_pairs_keys [of k' w] have "k' = k" unfolding kw by blast
    with e(1) kw show "k \<in> fst ` set params" by force
  qed
  have n: "buildQueryString None = []" by (simp add: buildQueryString_def)
  from omit have omit': "\<forall>k v. (k, QScalar v) \<in> set params \<and> q_nullish v
      \<longrightarrow> k \<notin> fst ` set (query_entries params [])"
    unfolding pairs by blast
  from sub have sub': "fst ` set (query_entries params []) \<subseteq> fst ` set params"
    unfolding pairs .
  from pairs str omit' sub' buildQueryString_prefix [of "Some params"] n
  show ?thesis by (intro conjI)
qed

theorem buildQueryString_omits_nullish_witness:
  "distinct (map fst [(''a'', QScalar QNull), (''b'', QArray [QNumber 1, QUndefined, QString ''x y'']),
       (''c'', QScalar (QBoolean True))])
   \<and> query_entries [(''a'', QScalar QNull), (''b'', QArray [QNumber 1, QUndefined, QString ''x y'']),
       (''c'', QScalar (QBoolean True))] []
     = [(''b'', ''1''), (''b'', ''x y''), (''c'', ''true'')]
   \<and> buildQueryString (Some [(''a'', QScalar QNull),
       (''b'', QArray [QNumber 1, QUndefined, QString ''x y'']), (''c'', QScalar (QBoolean True))])
     = ''?b=1&b=x+y&c=true''"
proof -
  have d: "distinct (map fst [(''a'', QScalar QNull),
      (''b'', QArray [QNumber 1, QUndefined, QString ''x y'']), (''c'', QScalar (QBoolean True))])"
    by simp
  have s: "spec_query_pairs [(''a'', QScalar QNull),
      (''b'', QArray [QNumber 1, QUndefined, QString ''x y'']), (''c'', QScalar (QBoolean True))]
    = [(''b'', ''1''), (''b'', ''x y''), (''c'', ''true'')]"
    by code_simp
  have u: "usp_toString [(''b'', ''1''), (''b'', ''x y''), (''c'', ''true'')] = ''b=1&b=x+y&c=true''"
    by code_simp
  from buildQueryString_omits_nullish [OF d] d show ?thesis
    unfolding s u by simp
qed


section \<open>Properties of the Body Serializer\<close>

lemma appendParam_flatten:
  "flattenable v \<Longrightarrow> appendParam key v params = Inr (params @ spec_flatten key v)"
  "(\<forall>v \<in> set vs. flattenable v) \<Longrightarrow>
     appendParam_elements key vs params =
       Inr (params @ concat (map (spec_flatten (key @ ''[]'')) vs))"
  "(\<forall>kv \<in> set kvs. flattenable (snd kv)) \<Longrightarrow>
     appendParam_entries key kvs params =
       Inr (params @ concat (map (\<lambda>kv. spec_flatten (key @ ''['' @ fst kv @ '']'') (snd kv)) kvs))"
proof (induction key v params and key vs params and key kvs params
    rule: appendParam_appendParam_elements_appendParam_entries.induct)
  case (3 key d params)
  then show ?case by (cases d) (simp_all add: usp_append_def)
qed (simp_all add: usp_append_def)

lemma appendParam_all_flatten:
  "(\<forall>kv \<in> set kvs. flattenable (snd kv)) \<Longrightarrow>
     appendParam_all kvs params = Inr (params @ spec_flatten_body kvs)"
proof (induction kvs arbitrary: params)
  case Nil
  then show ?case by (simp add: spec_flatten_body_def)
next
  case (Cons kv kvs)
  obtain k v where kv: "kv = (k, v)" by (cases kv)
  from Cons.prems kv have "flattenable v" by simp
  then have "appendParam k v params = Inr (params @ spec_flatten k v)"
    by (rule appendParam_flatten(1))
  moreover from Cons.prems have "\<forall>kv \<in> set kvs. flattenable (snd kv)" by simp
  then have "appendParam_all kvs (params @ spec_flatten k v) =
      Inr ((params @ spec_flatten k v) @ spec_flatten_body kvs)"
    by (rule Cons.IH)
  ultimately show ?case by (simp add: kv spec_flatten_body_def)
qed

lemma appendFD_text:
  "no_binary v \<Longrightarrow>
     appendFD key v (map text_field params) =
       map_sum id (map text_field) (appendParam key v params)"
  "(\<forall>v \<in> set vs. no_binary v) \<Longrightarrow>
     appendFD_elements key vs (map text_field params) =
       map_sum id (map text_field) (appendParam_elements key vs params)"
  "(\<forall>kv \<in> set kvs. no_binary (snd kv)) \<Longrightarrow>
     appendFD_entries key kvs (map text_field params) =
       map_sum id (map text_field) (appendParam_entries key kvs params)"
proof (induction key v params and key vs params and key kvs params
    rule: appendParam_appendParam_elements_appendParam_entries.induct)
  case (3 key d params)
  then show ?case by (cases d) (simp_all add: usp_append_def text_field_def)
next
  case (15 key v vs params)
  then show ?case
    by (cases "appendParam (key @ ''[]'') v params") simp_all
next
  case (17 key subKey subVal kvs params)
  then show ?case
    by (cases "appendParam (key @ ''['' @ subKey @ '']'') subVal params") simp_all
qed (simp_all add: usp_append_def text_field_def)

lemma appendFD_all_text:
  "(\<forall>kv \<in> set kvs. no_binary (snd kv)) \<Longrightarrow>
     appendFD_all kvs (map text_field params) =
       map_sum id (map text_field) (appendParam_all kvs params)"
proof (induction kvs arbitrary: params)
  case Nil
  then show ?case by simp
next
  case (Cons kv kvs)
  obtain k v where kv: "kv = (k, v)" by (cases kv)
  from Cons.prems kv have "no_binary v" by simp
  then have head: "appendFD k v (map text_field params) =
      map_sum id (map text_field) (appendParam k v params)"
    by (rule appendFD_text(1))
  from Cons.prems have rest: "\<forall>kv \<in> set kvs. no_binary (snd kv)" by simp
  show ?case
  proof (cases "appendParam k v params")
    case (Inl e)
    with head show ?thesis by (simp add: kv)
  next
    case (Inr params')
    with head Cons.IH [OF rest, of params'] show ?thesis by (simp add: kv)
  qed
qed

lemma no_binary_entries:
  "no_binary body \<Longrightarrow> \<forall>kv \<in> set (Object_entries body). no_binary (snd kv)"
  by (cases body) (auto simp: indexed_def dest!: set_zip_rightD)


lemma serializeBody_urlencoded:
  assumes "mode api = ModeUrlencoded" "\<not> prebuilt body"
  shows "serializeBody api body =
    (if body = VUndefined \<or> body = VNull then Inr None
     else case body of
            VThrowing e \<Rightarrow> Inl e
          | _ \<Rightarrow> map_sum id (\<lambda>ps. Some (BodyText (usp_toString ps)))
                   (appendParam_all (Object_entries body) []))"
  using assms by (cases body) (simp_all add: serializeBody_def split: sum.splits)

lemma serializeBody_form:
  assumes "mode api = ModeForm" "\<not> prebuilt body"
  shows "serializeBody api body =
    (if body = VUndefined \<or> body = VNull then Inr None
     else case body of
            VThrowing e \<Rightarrow> Inl e
          | _ \<Rightarrow> map_sum id (\<lambda>fd. Some (BodyForm fd))
                   (appendFD_all (Object_entries body) []))"
  using assms by (cases body) (simp_all add: serializeBody_def split: sum.splits)

text \<open>
  C3, as amended.  In url-encoded mode, a body object made of scalars, null, undefined,
  valid dates, arrays and nested objects is flattened by the rules of the specification
  (a leaf scalar under \<^verbatim>\<open>k\<close> gives the pair \<^verbatim>\<open>k\<close>, value; null and undefined give \<^verbatim>\<open>k\<close> with the
  empty value; a date gives its ISO-8601 string; an array element recurses under
  \<^verbatim>\<open>k[]\<close>; a property \<^verbatim>\<open>p\<close> of a nested object recurses under \<^verbatim>\<open>k[p]\<close>), in the order of the
  entries, and the output is the form-urlencoded serialization of those pairs, in which
  each bracket of a key path is percent-encoded.  For \<^verbatim>\<open>{ a: { b: 1 }, c: [1,2] }\<close> the
  pairs are \<^verbatim>\<open>a[b]\<close>, 1; \<^verbatim>\<open>c[]\<close>, 1; \<^verbatim>\<open>c[]\<close>, 2 and the output is
  \<^verbatim>\<open>a%5Bb%5D=1&c%5B%5D=1&c%5B%5D=2\<close>.
\<close>

theorem serializeBody_urlencoded_flattens:
  assumes "mode api = ModeUrlencoded" and "flattenable (VObj kvs)"
  shows "appendParam_all kvs [] = Inr (spec_flatten_body kvs)
    \<and> serializeBody api (VObj kvs) = Inr (Some (BodyText (usp_toString (spec_flatten_body kvs))))
    \<and> spec_flatten_body [(''a'', VObj [(''b'', VNum 1)]), (''c'', VArr [VNum 1, VNum 2])]
        = [(''a[b]'', ''1''), (''c[]'', ''1''), (''c[]'', ''2'')]
    \<and> usp_toString [(''a[b]'', ''1''), (''c[]'', ''1''), (''c[]'', ''2'')]
        = ''a%5Bb%5D=1&c%5B%5D=1&c%5B%5D=2''"
proof -
  from assms(2) have "\<forall>kv \<in> set kvs. flattenable (snd kv)" by simp
  then have pairs: "appendParam_all kvs [] = Inr ([] @ spec_flatten_body kvs)"
    by (rule appendParam_all_flatten)
  have "\<not> prebuilt (VObj kvs)" by simp
  from serializeBody_urlencoded [OF assms(1) this] pairs
  have out: "serializeBody api (VObj kvs) =
      Inr (Some (BodyText (usp_toString (spec_flatten_body kvs))))"
    by simp
  have ex: "spec_flatten_body [(''a'', VObj [(''b'', VNum 1)]), (''c'', VArr [VNum 1, VNum 2])]
      = [(''a[b]'', ''1''), (''c[]'', ''1''), (''c[]'', ''2'')]"
    by code_simp
  have str: "usp_toString [(''a[b]'', ''1''), (''c[]'', ''1''), (''c[]'', ''2'')]
      = ''a%5Bb%5D=1&c%5B%5D=1&c%5B%5D=2''"
    by code_simp
  from pairs out ex str show ?thesis by simp
qed

theorem serializeBody_urlencoded_flattens_witness:
  "mode (new_Api [] (Some ModeUrlencoded) None) = ModeUrlencoded
   \<and> flattenable (VObj [(''d'', VDate (Some ''2020-01-02T03:04:05.000Z'')), (''n'', VNull),
        (''o'', VObj [(''x'', VArr [VStr ''p q'', VBool True])])])
   \<and> serializeBody (new_Api [] (Some ModeUrlencoded) None)
       (VObj [(''d'', VDate (Some ''2020-01-02T03:04:05.000Z'')), (''n'', VNull),
        (''o'', VObj [(''x'', VArr [VStr ''p q'', VBool True])])])
     = Inr (Some (BodyText ''d=2020-01-02T03%3A04%3A05.000Z&n=&o%5Bx%5D%5B%5D=p+q&o%5Bx%5D%5B%5D=true''))"
proof -
  have m: "mode (new_Api [] (Some ModeUrlencoded) None) = ModeUrlencoded"
    by (simp add: new_Api_def)
  have f: "flattenable (VObj [(''d'', VDate (Some ''2020-01-02T03:04:05.000Z'')), (''n'', VNull),
        (''o'', VObj [(''x'', VArr [VStr ''p q'', VBool True])])])"
    by simp
  have s: "usp_toString (spec_flatten_body [(''d'', VDate (Some ''2020-01-02T03:04:05.000Z'')),
        (''n'', VNull), (''o'', VObj [(''x'', VArr [VStr ''p q'', VBool True])])])
      = ''d=2020-01-02T03%3A04%3A05.000Z&n=&o%5Bx%5D%5B%5D=p+q&o%5Bx%5D%5B%5D=true''"
    by code_simp
  from serializeBody_urlencoded_flattens [OF m f] m f show ?thesis
    unfolding s by simp
qed

text \<open>
  The output for \<^verbatim>\<open>{ a: { b: 1 }, c: [1,2] }\<close> is none of the orderings of
  \<^verbatim>\<open>a[b]=1\<close>, \<^verbatim>\<open>c[]=1\<close>, \<^verbatim>\<open>c[]=2\<close> joined by \<^verbatim>\<open>&\<close>; and a body object
  with an invalid date has no output, the serializer throws.
\<close>

theorem serializeBody_urlencoded_brackets_counterexample:
  "serializeBody (new_Api [] (Some ModeUrlencoded) None)
       (VObj [(''a'', VObj [(''b'', VNum 1)]), (''c'', VArr [VNum 1, VNum 2])])
     = Inr (Some (BodyText ''a%5Bb%5D=1&c%5B%5D=1&c%5B%5D=2''))
   \<and> serializeBody (new_Api [] (Some ModeUrlencoded) None)
       (VObj [(''a'', VObj [(''b'', VNum 1)]), (''c'', VArr [VNum 1, VNum 2])])
     \<notin> {Inr (Some (BodyText ''a[b]=1&c[]=1&c[]=2'')), Inr (Some (BodyText ''a[b]=1&c[]=2&c[]=1'')),
        Inr (Some (BodyText ''c[]=1&a[b]=1&c[]=2'')), Inr (Some (BodyText ''c[]=1&c[]=2&a[b]=1'')),
        Inr (Some (BodyText ''c[]=2&a[b]=1&c[]=1'')), Inr (Some (BodyText ''c[]=2&c[]=1&a[b]=1''))}
   \<and> serializeBody (new_Api [] (Some ModeUrlencoded) None) (VObj [(''d'', VDate None)])
     = Inl RangeError"
proof -
  have "serializeBody (new_Api [] (Some ModeUrlencoded) None)
       (VObj [(''a'', VObj [(''b'', VNum 1)]), (''c'', VArr [VNum 1, VNum 2])])
     = Inr (Some (BodyText ''a%5Bb%5D=1&c%5B%5D=1&c%5B%5D=2''))"
    by code_simp
  moreover have "serializeBody (new_Api [] (Some ModeUrlencoded) None)
      (VObj [(''d'', VDate None)]) = Inl RangeError"
    by (simp add: serializeBody_def new_Api_def)
  ultimately show ?thesis by simp
qed

text \<open>
  C8, as amended.  For a body that holds no file and no blob and is not itself an
  already-encoded parameter set or a prebuilt multipart payload, url-encoded mode and
  multipart mode agree: both return no body, or both throw the same error, or the
  multipart payload consists of exactly the pairs that url-encoded mode serializes,
  each as a text field under the same key path with the same string value.
\<close>

theorem serializeBody_modes_same_fields:
  assumes "mode u = ModeUrlencoded" and "mode f = ModeForm"
    and "no_binary body" and "\<not> prebuilt body"
  shows "(serializeBody u body = Inr None \<and> serializeBody f body = Inr None)
    \<or> (\<exists>e. serializeBody u body = Inl e \<and> serializeBody f body = Inl e)
    \<or> (\<exists>params. appendParam_all (Object_entries body) [] = Inr params
          \<and> serializeBody u body = Inr (Some (BodyText (usp_toString params)))
          \<and> serializeBody f body = Inr (Some (BodyForm (map text_field params))))"
proof -
  from assms(3) have "\<forall>kv \<in> set (Object_entries body). no_binary (snd kv)"
    by (rule no_binary_entries)
  then have fields: "appendFD_all (Object_entries body) (map text_field []) =
      map_sum id (map text_field) (appendParam_all (Object_entries body) [])"
    by (rule appendFD_all_text)
  note u = serializeBody_urlencoded [OF assms(1) assms(4)]
  note f = serializeBody_form [OF assms(2) assms(4)]
  show ?thesis
  proof (cases "body = VUndefined \<or> body = VNull")
    case True
    with u f show ?thesis by simp
  next
    case False
    consider (thrower) e where "body = VThrowing e" | (plain) "\<forall>e. body \<noteq> VThrowing e"
      by blast
    then show ?thesis
    proof cases
      case thrower
      with u f show ?thesis by simp
    next
      case plain
      with False u have pu: "serializeBody u body =
          map_sum id (\<lambda>ps. Some (BodyText (usp_toString ps)))
            (appendParam_all (Object_entries body) [])"
        by (cases body) simp_all
      from plain False f have pf: "serializeBody f body =
          map_sum id (\<lambda>fd. Some (BodyForm fd)) (appendFD_all (Object_entries body) [])"
        by (cases body) simp_all
      show ?thesis
      proof (cases "appendParam_all (Object_entries body) []")
        case (Inl e)
        with pu pf fields show ?thesis by simp
      next
        case (Inr params)
        with pu pf fields show ?thesis by simp
      qed
    qed
  qed
qed

theorem serializeBody_modes_same_fields_witness:
  "mode (new_Api [] (Some ModeUrlencoded) None) = ModeUrlencoded
   \<and> mode (new_Api [] (Some ModeForm) None) = ModeForm
   \<and> no_binary (VObj [(''a'', VObj [(''b'', VNum 1)]), (''c'', VArr [VNull, VStr ''x''])])
   \<and> \<not> prebuilt (VObj [(''a'', VObj [(''b'', VNum 1)]), (''c'', VArr [VNull, VStr ''x''])])
   \<and> serializeBody (new_Api [] (Some ModeUrlencoded) None)
        (VObj [(''a'', VObj [(''b'', VNum 1)]), (''c'', VArr [VNull, VStr ''x''])])
       = Inr (Some (BodyText (usp_toString [(''a[b]'', ''1''), (''c[]'', []), (''c[]'', ''x'')])))
   \<and> serializeBody (new_Api [] (Some ModeForm) None)
        (VObj [(''a'', VObj [(''b'', VNum 1)]), (''c'', VArr [VNull, VStr ''x''])])
       = Inr (Some (BodyForm (map text_field [(''a[b]'', ''1''), (''c[]'', []), (''c[]'', ''x'')])))"
proof -
  have u: "mode (new_Api [] (Some ModeUrlencoded) None) = ModeUrlencoded"
    by (simp add: new_Api_def)
  have f: "mode (new_Api [] (Some ModeForm) None) = ModeForm"
    by (simp add: new_Api_def)
  have n: "no_binary (VObj [(''a'', VObj [(''b'', VNum 1)]), (''c'', VArr [VNull, VStr ''x''])])"
    by simp
  have p: "\<not> prebuilt (VObj [(''a'', VObj [(''b'', VNum 1)]), (''c'', VArr [VNull, VStr ''x''])])"
    by simp
  have a: "appendParam_all
      (Object_entries (VObj [(''a'', VObj [(''b'', VNum 1)]), (''c'', VArr [VNull, VStr ''x''])])) []
      = Inr [(''a[b]'', ''1''), (''c[]'', []), (''c[]'', ''x'')]"
    by code_simp
  have su: "serializeBody (new_Api [] (Some ModeUrlencoded) None)
        (VObj [(''a'', VObj [(''b'', VNum 1)]), (''c'', VArr [VNull, VStr ''x''])])
       = Inr (Some (BodyText (usp_toString [(''a[b]'', ''1''), (''c[]'', []), (''c[]'', ''x'')])))"
    using serializeBody_urlencoded [OF u p] a by simp
  from serializeBody_modes_same_fields [OF u f n p]
  have "serializeBody (new_Api [] (Some ModeForm) None)
        (VObj [(''a'', VObj [(''b'', VNum 1)]), (''c'', VArr [VNull, VStr ''x''])])
       = Inr (Some (BodyForm (map text_field [(''a[b]'', ''1''), (''c[]'', []), (''c[]'', ''x'')])))"
    unfolding a su by auto
  with u f n p su show ?thesis by (intro conjI)
qed

text \<open>
  An already-encoded parameter set holds no binary value, yet url-encoded mode sends its
  pairs while multipart mode, which finds no enumerable entry in it, sends an empty form.
\<close>

theorem serializeBody_modes_prebuilt_counterexample:
  "no_binary (VParams [(''a'', ''1'')])
   \<and> serializeBody (new_Api [] (Some ModeUrlencoded) None) (VParams [(''a'', ''1'')])
       = Inr (Some (BodyText ''a=1''))
   \<and> serializeBody (new_Api [] (Some ModeForm) None) (VParams [(''a'', ''1'')])
       = Inr (Some (BodyForm []))"
  by code_simp


section \<open>Properties of the Header Builder\<close>

lemma map_of_obj_set: "map_of (obj_set k v kvs) x = (if x = k then Some v else map_of kvs x)"
  by (induction kvs) auto

lemma map_of_obj_spread:
  "map_of (obj_spread target src) x =
     (case map_of (rev src) x of Some v \<Rightarrow> Some v | None \<Rightarrow> map_of target x)"
proof (induction src arbitrary: target)
  case Nil
  then show ?case by simp
next
  case (Cons kv src)
  obtain k v where kv: "kv = (k, v)" by (cases kv)
  show ?case
    unfolding kv
    by (simp add: Cons.IH map_of_obj_set map_add_def split: option.splits)
qed

lemma map_of_rev_distinct: "distinct (map fst xs) \<Longrightarrow> map_of (rev xs) = map_of xs"
  by (subst map_of_inject_set) (simp_all add: rev_map [symmetric])

lemma normalize_effects: "set (snd (normalize res)) \<subseteq> {ReadJson, ReadText, ConsoleError}"
  by (auto simp: normalize_def parse_body_def Let_def split: prod.splits if_splits)

lemma try_block_effects:
  assumes "e \<in> set (snd (try_block api tr timer path method body init))"
  shows "(\<exists>url fi. e = Fetch url fi \<and> f_headers fi = finalHeaders api init
            \<and> f_cache fi = ''no-store'' \<and> f_method fi = method)
     \<or> e \<in> {ReadJson, ReadText, ConsoleError}"
proof (cases "serializeBody api body")
  case (Inl err)
  with assms show ?thesis by (simp add: try_block_def)
next
  case (Inr b)
  show ?thesis
  proof (cases "await_fetch tr timer (listener_attached (signal init))
      (controller_after_signals (signal init)) (baseURL api @ path)
      \<lparr>f_method = method, f_body = b, f_cache = ''no-store'',
       f_headers = finalHeaders api init\<rparr>")
    case (Inl err)
    with Inr assms show ?thesis by (simp add: try_block_def Let_def)
  next
    case inr: (Inr res)
    with Inr assms have "e = Fetch (baseURL api @ path)
        \<lparr>f_method = method, f_body = b, f_cache = ''no-store'',
         f_headers = finalHeaders api init\<rparr> \<or> e \<in> set (snd (normalize res))"
      by (auto simp: try_block_def Let_def split: prod.splits)
    with normalize_effects [of res] show ?thesis by auto
  qed
qed

lemma try_block_no_timer_effect:
  "e \<in> set (snd (try_block api tr timer path method body init)) \<Longrightarrow> \<not> is_timer_effect e"
  by (drule try_block_effects) auto

lemma request_effects:
  "snd (request api tr path method body init) =
     (let t = (case timeoutMs init of None \<Rightarrow> defaultTimeoutMs api | Some ms \<Rightarrow> ms)
      in (if 0 < t then [SetTimeout t] else [])
         @ snd (try_block api tr (0 < t) path method body init)
         @ (if 0 < t then [ClearTimeout] else []))"
proof -
  have eq: "(t \<noteq> 0 \<and> 0 < t) = (0 < t)" for t :: int by auto
  show ?thesis
    by (simp add: request_def Let_def eq split: prod.splits)
qed

text \<open>
  C5.  The headers that reach the transport are built in the fixed order mode defaults
  (with the bearer token), then the caller's headers, then the forced directive: under
  \<^verbatim>\<open>Cache-Control\<close> the final map holds \<^verbatim>\<open>no-store, max-age=0\<close> whatever the caller
  supplied; under every other name it holds the caller's value when the caller gave
  one, and the base value otherwise.  Every call of the transport made by a request
  carries these headers, together with the cache mode \<^verbatim>\<open>no-store\<close>.
\<close>

theorem finalHeaders_precedence:
  assumes "distinct (map fst (case headers init of None \<Rightarrow> [] | Some h \<Rightarrow> h))"
  shows "map_of (finalHeaders api init) ''Cache-Control'' = Some ''no-store, max-age=0''
    \<and> (\<forall>k. k \<noteq> ''Cache-Control'' \<longrightarrow>
          map_of (finalHeaders api init) k =
            (case map_of (case headers init of None \<Rightarrow> [] | Some h \<Rightarrow> h) k of
               Some v \<Rightarrow> Some v
             | None \<Rightarrow> map_of (buildHeaders api (token init)) k))
    \<and> (\<forall>url fi. Fetch url fi \<in> set (snd (request api tr path method body init)) \<longrightarrow>
          f_headers fi = finalHeaders api init \<and> f_cache fi = ''no-store'')"
proof -
  let ?h = "case headers init of None \<Rightarrow> [] | Some h \<Rightarrow> h"
  from assms have rev: "map_of (rev ?h) = map_of ?h" by (rule map_of_rev_distinct)
  have forced: "map_of (finalHeaders api init) ''Cache-Control'' = Some ''no-store, max-age=0''"
    by (simp add: finalHeaders_def map_of_obj_set)
  have other: "map_of (finalHeaders api init) k =
      (case map_of ?h k of Some v \<Rightarrow> Some v | None \<Rightarrow> map_of (buildHeaders api (token init)) k)"
    if "k \<noteq> ''Cache-Control''" for k
    using that by (simp add: finalHeaders_def map_of_obj_set map_of_obj_spread rev)
  have sent: "f_headers fi = finalHeaders api init \<and> f_cache fi = ''no-store''"
    if "Fetch url fi \<in> set (snd (request api tr path method body init))" for url fi
  proof -
    from that have "Fetch url fi \<in> set (snd (try_block api tr
        (0 < (case timeoutMs init of None \<Rightarrow> defaultTimeoutMs api | Some ms \<Rightarrow> ms))
        path method body init))"
      by (auto simp: request_effects Let_def split: if_splits)
    from try_block_effects [OF this] show ?thesis by auto
  qed
  from forced other sent show ?thesis by blast
qed

theorem finalHeaders_precedence_witness:
  "distinct (map fst (case headers \<lparr>token = Some ''t'',
        headers = Some [(''Cache-Control'', ''max-age=3600''), (''Accept'', ''text/plain'')],
        signal = None, timeoutMs = None\<rparr> of None \<Rightarrow> [] | Some h \<Rightarrow> h))
   \<and> finalHeaders (new_Api [] None None) \<lparr>token = Some ''t'',
        headers = Some [(''Cache-Control'', ''max-age=3600''), (''Accept'', ''text/plain'')],
        signal = None, timeoutMs = None\<rparr>
     = [(''Accept'', ''text/plain''), (''Content-Type'', ''application/json''),
        (''Authorization'', ''Bearer t''), (''Cache-Control'', ''no-store, max-age=0'')]
   \<and> map_of (finalHeaders (new_Api [] None None) \<lparr>token = Some ''t'',
        headers = Some [(''Cache-Control'', ''max-age=3600''), (''Accept'', ''text/plain'')],
        signal = None, timeoutMs = None\<rparr>) ''Cache-Control'' = Some ''no-store, max-age=0''
   \<and> snd (request (new_Api [] None None) \<lparr>fetch = failing [], interrupt = None\<rparr>
        ''/x'' GET VUndefined \<lparr>token = Some ''t'',
        headers = Some [(''Cache-Control'', ''max-age=3600''), (''Accept'', ''text/plain'')],
        signal = None, timeoutMs = Some 0\<rparr>)
     = [Fetch ''/x'' \<lparr>f_method = GET, f_body = None, f_cache = ''no-store'',
          f_headers = [(''Accept'', ''text/plain''), (''Content-Type'', ''application/json''),
            (''Authorization'', ''Bearer t''), (''Cache-Control'', ''no-store, max-age=0'')]\<rparr>]"
proof -
  let ?h = "Some [(''Cache-Control'', ''max-age=3600''), (''Accept'', ''text/plain'')]"
  have d: "distinct (map fst (case headers \<lparr>token = Some ''t'', headers = ?h,
        signal = None, timeoutMs = None\<rparr> of None \<Rightarrow> [] | Some h \<Rightarrow> h))"
    by simp
  have v: "finalHeaders (new_Api [] None None) \<lparr>token = Some ''t'', headers = ?h,
        signal = None, timeoutMs = tm\<rparr>
     = [(''Accept'', ''text/plain''), (''Content-Type'', ''application/json''),
        (''Authorization'', ''Bearer t''), (''Cache-Control'', ''no-store, max-age=0'')]" for tm
    by (simp add: finalHeaders_def buildHeaders_def buildBaseHeaders_def new_Api_def)
  have fx: "snd (request (new_Api [] None None) \<lparr>fetch = failing [], interrupt = None\<rparr>
        ''/x'' GET VUndefined \<lparr>token = Some ''t'', headers = ?h,
        signal = None, timeoutMs = Some 0\<rparr>)
     = [Fetch ''/x'' \<lparr>f_method = GET, f_body = None, f_cache = ''no-store'',
          f_headers = finalHeaders (new_Api [] None None) \<lparr>token = Some ''t'', headers = ?h,
            signal = None, timeoutMs = Some 0\<rparr>\<rparr>]"
    by (simp add: request_effects try_block_def serializeBody_def await_fetch_def
        controller_after_signals_def listener_attached_def failing_def new_Api_def Let_def)
  from finalHeaders_precedence [OF d, of "new_Api [] None None"] d v fx show ?thesis
    by simp
qed

section \<open>Properties of the Cancellation Composer\<close>

lemma request_fst:
  "fst (request api tr path method body init) =
     (case fst (try_block api tr
                  (0 < (case timeoutMs init of None \<Rightarrow> defaultTimeoutMs api | Some ms \<Rightarrow> ms))
                  path method body init) of
        Inl e \<Rightarrow> catch_block e
      | Inr envelope \<Rightarrow> Inr envelope)"
proof -
  have eq: "(t \<noteq> 0 \<and> 0 < t) = (0 < t)" for t :: int by auto
  show ?thesis
    by (simp add: request_def Let_def eq split: prod.splits)
qed

text \<open>
  C9.  With \<^verbatim>\<open>t\<close> the per-call timeout when given and the client default otherwise:
  the effects of a request are those of its \<^verbatim>\<open>try\<close> block, none of which concerns the
  timer, enclosed between setting the timer for \<^verbatim>\<open>t\<close> and clearing it when \<^verbatim>\<open>t\<close> is
  strictly positive, and not enclosed when it is not.  This holds for every transport
  behaviour, body, signal and outcome, the rejected promise included: a timer is set
  only for a positive timeout and, once set, is cleared last on every path.
\<close>

theorem request_timer_released:
  "\<exists>fx. snd (request api tr path method body init) =
          (if 0 < (case timeoutMs init of None \<Rightarrow> defaultTimeoutMs api | Some ms \<Rightarrow> ms)
           then [SetTimeout (case timeoutMs init of None \<Rightarrow> defaultTimeoutMs api | Some ms \<Rightarrow> ms)]
                @ fx @ [ClearTimeout]
           else fx)
        \<and> filter is_timer_effect fx = []"
proof -
  let ?t = "case timeoutMs init of None \<Rightarrow> defaultTimeoutMs api | Some ms \<Rightarrow> ms"
  let ?fx = "snd (try_block api tr (0 < ?t) path method body init)"
  have "filter is_timer_effect ?fx = []"
    by (simp add: filter_empty_conv try_block_no_timer_effect)
  moreover have "snd (request api tr path method body init) =
      (if 0 < ?t then [SetTimeout ?t] @ ?fx @ [ClearTimeout] else ?fx)"
    by (simp add: request_effects Let_def)
  ultimately show ?thesis by blast
qed

theorem request_timer_released_witness:
  "snd (request (new_Api ''https://api'' None None)
          \<lparr>fetch = failing [], interrupt = None\<rparr> ''/x'' GET VUndefined
          \<lparr>token = None, headers = None, signal = Some (Aborted JNull), timeoutMs = Some 5\<rparr>)
     = [SetTimeout 5,
        Fetch ''https://api/x''
          \<lparr>f_method = GET, f_body = None, f_cache = ''no-store'',
           f_headers = [(''Accept'', ''application/json''),
             (''Content-Type'', ''application/json''),
             (''Cache-Control'', ''no-store, max-age=0'')]\<rparr>,
        ClearTimeout]
   \<and> fst (request (new_Api ''https://api'' None None)
          \<lparr>fetch = failing [], interrupt = None\<rparr> ''/x'' GET VUndefined
          \<lparr>token = None, headers = None, signal = Some (Aborted JNull), timeoutMs = Some 5\<rparr>)
     = Inl (js_Error ''TypeError'' ''Cannot read properties of null'')"
proof -
  have fx: "snd (try_block (new_Api ''https://api'' None None)
          \<lparr>fetch = failing [], interrupt = None\<rparr> True ''/x'' GET VUndefined
          \<lparr>token = None, headers = None, signal = Some (Aborted JNull), timeoutMs = Some 5\<rparr>)
     = [Fetch ''https://api/x''
          \<lparr>f_method = GET, f_body = None, f_cache = ''no-store'',
           f_headers = [(''Accept'', ''application/json''),
             (''Content-Type'', ''application/json''),
             (''Cache-Control'', ''no-store, max-age=0'')]\<rparr>]"
    by (simp add: try_block_def serializeBody_def await_fetch_def
        controller_after_signals_def new_Api_def finalHeaders_def buildHeaders_def
        buildBaseHeaders_def Let_def)
  have r: "fst (request (new_Api ''https://api'' None None)
          \<lparr>fetch = failing [], interrupt = None\<rparr> ''/x'' GET VUndefined
          \<lparr>token = None, headers = None, signal = Some (Aborted JNull), timeoutMs = Some 5\<rparr>)
     = Inl (js_Error ''TypeError'' ''Cannot read properties of null'')"
    by (simp add: request_fst try_block_def serializeBody_def await_fetch_def
        controller_after_signals_def catch_block_def Let_def)
  from request_timer_released [of "new_Api ''https://api'' None None"
      "\<lparr>fetch = failing [], interrupt = None\<rparr>" "''/x''" GET VUndefined
      "\<lparr>token = None, headers = None, signal = Some (Aborted JNull), timeoutMs = Some 5\<rparr>"]
  obtain fx' where "snd (request (new_Api ''https://api'' None None)
          \<lparr>fetch = failing [], interrupt = None\<rparr> ''/x'' GET VUndefined
          \<lparr>token = None, headers = None, signal = Some (Aborted JNull), timeoutMs = Some 5\<rparr>)
      = [SetTimeout 5] @ fx' @ [ClearTimeout]"
    by auto
  moreover have "snd (request (new_Api ''https://api'' None None)
          \<lparr>fetch = failing [], interrupt = None\<rparr> ''/x'' GET VUndefined
          \<lparr>token = None, headers = None, signal = Some (Aborted JNull), timeoutMs = Some 5\<rparr>)
      = [SetTimeout 5] @ snd (try_block (new_Api ''https://api'' None None)
          \<lparr>fetch = failing [], interrupt = None\<rparr> True ''/x'' GET VUndefined
          \<lparr>token = None, headers = None, signal = Some (Aborted JNull), timeoutMs = Some 5\<rparr>)
        @ [ClearTimeout]"
    by (simp add: request_effects)
  ultimately show ?thesis using fx r by simp
qed


section \<open>Properties of the Response Normalizer\<close>

lemma try_block_thrown:
  "serializeBody api body = Inl e \<Longrightarrow>
     try_block api tr timer path method body init = (Inl e, [])"
  by (simp add: try_block_def)

lemma try_block_fetched:
  assumes "serializeBody api body = Inr b"
  shows "fst (try_block api tr timer path method body init) =
     map_sum id (\<lambda>res. fst (normalize res))
       (await_fetch tr timer (listener_attached (signal init))
          (controller_after_signals (signal init)) (baseURL api @ path)
          \<lparr>f_method = method, f_body = b, f_cache = ''no-store'',
           f_headers = finalHeaders api init\<rparr>)"
    and "snd (try_block api tr timer path method body init) =
     Fetch (baseURL api @ path)
       \<lparr>f_method = method, f_body = b, f_cache = ''no-store'',
        f_headers = finalHeaders api init\<rparr>
     # (case await_fetch tr timer (listener_attached (signal init))
          (controller_after_signals (signal init)) (baseURL api @ path)
          \<lparr>f_method = method, f_body = b, f_cache = ''no-store'',
           f_headers = finalHeaders api init\<rparr> of
          Inl e \<Rightarrow> []
        | Inr res \<Rightarrow> snd (normalize res))"
  using assms
  by (simp_all add: try_block_def Let_def split: sum.splits prod.splits)

lemma normalize_no_content: "status res = 204 \<Longrightarrow> normalize res = (no_content, [])"
  by (simp add: normalize_def no_content_def)

lemma not_ok_not_204: "\<not> ok res \<Longrightarrow> status res \<noteq> 204"
  by (auto simp: ok_def)

lemma normalize_failure:
  assumes "\<not> ok res" and "parse_body res = (parsed, fx)"
  shows "normalize res =
     (failure (status res) (fst (extract_error res parsed)) (snd (extract_error res parsed)),
      fx @ [ConsoleError])"
  using assms not_ok_not_204 [OF assms(1)]
  by (simp add: normalize_def failure_def Let_def split: prod.splits)

lemma item_message_text:
  "(if item_message item = JNull then [] else String_json (item_message item))
     = spec_item_text item"
proof (cases item)
  case (JObj kvs)
  show ?thesis
  proof (cases "map_of kvs ''msg''")
    case None
    with JObj show ?thesis by (simp add: item_message_def spec_item_text_def)
  next
    case (Some m)
    with JObj show ?thesis
      by (cases m) (simp_all add: item_message_def spec_item_text_def)
  qed
qed (simp_all add: item_message_def spec_item_text_def)

lemma array_join_item_messages:
  "array_join sep (map item_message items) = join sep (map spec_item_text items)"
proof -
  have "map (\<lambda>x. if x = JNull then [] else String_json x) (map item_message items)
      = map spec_item_text items"
    by (simp add: item_message_text)
  then show ?thesis by (simp only: array_join_def)
qed

text \<open>
  C6.  A response with status 204 is normalized to the envelope
  \<^verbatim>\<open>{ success: true, data: {}, message: "No Content" }\<close> with no effect at all, whatever
  its content type and whatever reading its body would give.  A request that the
  transport answers with such a response returns that envelope, and neither
  \<^verbatim>\<open>res.json()\<close> nor \<^verbatim>\<open>res.text()\<close> is among its effects.
\<close>

theorem no_content_never_parsed:
  assumes "status res = 204"
  shows "normalize res = (no_content, [])
    \<and> (\<forall>c j t. normalize (res\<lparr>content_type := c, json_body := j, text_body := t\<rparr>)
          = (no_content, []))
    \<and> (serializeBody api body = Inr b
        \<and> controller_after_signals (signal init) = None
        \<and> interrupt tr = None
        \<and> fetch tr (baseURL api @ path)
             \<lparr>f_method = method, f_body = b, f_cache = ''no-store'',
              f_headers = finalHeaders api init\<rparr> = Responds res
        \<longrightarrow> fst (request api tr path method body init) = Inr no_content
          \<and> ReadJson \<notin> set (snd (request api tr path method body init))
          \<and> ReadText \<notin> set (snd (request api tr path method body init)))"
proof -
  from assms have n: "normalize res = (no_content, [])"
    by (rule normalize_no_content)
  have any: "normalize (res\<lparr>content_type := c, json_body := j, text_body := t\<rparr>)
      = (no_content, [])" for c j t
    using assms by (simp add: normalize_no_content)
  have req: "fst (request api tr path method body init) = Inr no_content
      \<and> ReadJson \<notin> set (snd (request api tr path method body init))
      \<and> ReadText \<notin> set (snd (request api tr path method body init))"
    if b: "serializeBody api body = Inr b"
      and c: "controller_after_signals (signal init) = None"
      and i: "interrupt tr = None"
      and f: "fetch tr (baseURL api @ path)
             \<lparr>f_method = method, f_body = b, f_cache = ''no-store'',
              f_headers = finalHeaders api init\<rparr> = Responds res"
  proof -
    have a: "await_fetch tr timer (listener_attached (signal init))
          (controller_after_signals (signal init)) (baseURL api @ path)
          \<lparr>f_method = method, f_body = b, f_cache = ''no-store'',
           f_headers = finalHeaders api init\<rparr> = Inr res" for timer
      by (simp add: await_fetch_def c i f)
    from try_block_fetched [OF b] a n
    have "fst (try_block api tr timer path method body init) = Inr no_content"
      and "snd (try_block api tr timer path method body init) =
        [Fetch (baseURL api @ path)
          \<lparr>f_method = method, f_body = b, f_cache = ''no-store'',
           f_headers = finalHeaders api init\<rparr>]" for timer
      by simp_all
    then show ?thesis
      by (simp add: request_fst request_effects Let_def)
  qed
  from n any req show ?thesis by blast
qed

theorem no_content_never_parsed_witness:
  "status \<lparr>status = 204, statusText = ''No Content'', content_type = Some ''application/json'',
       json_body = Some (JObj [(''message'', JStr ''ignored'')]), text_body = Some ''{''\<rparr> = 204
   \<and> normalize \<lparr>status = 204, statusText = ''No Content'', content_type = Some ''application/json'',
       json_body = Some (JObj [(''message'', JStr ''ignored'')]), text_body = Some ''{''\<rparr>
     = (no_content, [])
   \<and> serializeBody (new_Api ''https://api'' None None) VUndefined = Inr None
   \<and> controller_after_signals (signal (token_only None)) = None
   \<and> fst (request (new_Api ''https://api'' None None)
        \<lparr>fetch = answering \<lparr>status = 204, statusText = ''No Content'',
             content_type = Some ''application/json'',
             json_body = Some (JObj [(''message'', JStr ''ignored'')]), text_body = Some ''{''\<rparr>,
         interrupt = None\<rparr>
        ''/items/7'' DELETE VUndefined (token_only None))
     = Inr no_content"
proof -
  let ?res = "\<lparr>status = 204, statusText = ''No Content'',
       content_type = Some ''application/json'',
       json_body = Some (JObj [(''message'', JStr ''ignored'')]), text_body = Some ''{''\<rparr>"
  let ?tr = "\<lparr>fetch = answering ?res, interrupt = None\<rparr>"
  have s: "status ?res = 204"
    by simp
  have b: "serializeBody (new_Api ''https://api'' None None) VUndefined = Inr None"
    by (simp add: serializeBody_def)
  have c: "controller_after_signals (signal (token_only None)) = None"
    by (simp add: token_only_def controller_after_signals_def)
  have i: "interrupt ?tr = None"
    by simp
  have f: "fetch ?tr (baseURL (new_Api ''https://api'' None None) @ ''/items/7'')
      \<lparr>f_method = DELETE, f_body = None, f_cache = ''no-store'',
       f_headers = finalHeaders (new_Api ''https://api'' None None) (token_only None)\<rparr>
      = Responds ?res"
    by (simp add: answering_def)
  from no_content_never_parsed [OF s, of "new_Api ''https://api'' None None" VUndefined None
      "token_only None" ?tr "''/items/7''" DELETE] b c i f
  have "fst (request (new_Api ''https://api'' None None) ?tr
      ''/items/7'' DELETE VUndefined (token_only None)) = Inr no_content"
    by blast
  with no_content_never_parsed [OF s] s b c show ?thesis by blast
qed

text \<open>
  C10.  A failing response whose parsed payload is an object with a \<^verbatim>\<open>detail\<close> field of
  value null takes the detail branch: the message is the four characters \<^verbatim>\<open>null\<close>,
  whatever the payload's \<^verbatim>\<open>message\<close> field and the response's status phrase are, and the
  envelope carries the status, that message and the null detail.
\<close>

theorem null_detail_message:
  assumes "\<not> ok res" and "parse_body res = (JObj kvs, fx)"
    and "map_of kvs ''detail'' = Some JNull"
  shows "extract_error res (JObj kvs) = (JStr ''null'', Some JNull)
    \<and> normalize res = (failure (status res) (JStr ''null'') (Some JNull), fx @ [ConsoleError])
    \<and> length ''null'' = 4"
proof -
  from assms(3) have e: "extract_error res (JObj kvs) = (JStr ''null'', Some JNull)"
    by (simp add: extract_error_def)
  from normalize_failure [OF assms(1) assms(2)] e show ?thesis by simp
qed

theorem null_detail_message_witness:
  "\<not> ok \<lparr>status = 422, statusText = ''Unprocessable Entity'',
       content_type = Some ''application/json'',
       json_body = Some (JObj [(''detail'', JNull), (''message'', JStr ''shown?'')]),
       text_body = None\<rparr>
   \<and> normalize \<lparr>status = 422, statusText = ''Unprocessable Entity'',
       content_type = Some ''application/json'',
       json_body = Some (JObj [(''detail'', JNull), (''message'', JStr ''shown?'')]),
       text_body = None\<rparr>
     = (failure 422 (JStr ''null'') (Some JNull), [ReadJson, ConsoleError])"
proof -
  let ?res = "\<lparr>status = 422, statusText = ''Unprocessable Entity'',
       content_type = Some ''application/json'',
       json_body = Some (JObj [(''detail'', JNull), (''message'', JStr ''shown?'')]),
       text_body = None\<rparr>"
  have o: "\<not> ok ?res" by (simp add: ok_def)
  have p: "parse_body ?res =
      (JObj [(''detail'', JNull), (''message'', JStr ''shown?'')], [ReadJson])"
    by code_simp
  have d: "map_of [(''detail'', JNull), (''message'', JStr ''shown?'')] ''detail'' = Some JNull"
    by simp
  from null_detail_message [OF o p d] o show ?thesis by simp
qed


section \<open>Properties of error extraction and of the client\<close>

text \<open>
  C2, as amended.  A failing response is normalized to the failure envelope that carries
  its status, the extracted message and the extracted detail under \<^verbatim>\<open>error\<close> and the
  same message at the top level.  The message follows this precedence over the parsed
  payload.  (1) The payload is an object with a \<^verbatim>\<open>detail\<close> field: for an array, the
  messages of the elements joined by \<^verbatim>\<open>"; "\<close>, where a string element is used as it is,
  an object element gives its \<^verbatim>\<open>msg\<close> field when it has one that is truthy (not empty,
  zero, false or null) and its serialized form otherwise, and any other element gives
  its serialized form; for a string, the string; for an object, its \<^verbatim>\<open>msg\<close> field when it
  has one that is truthy, and its serialized form otherwise.  (2) Else the payload is an
  object with a \<^verbatim>\<open>message\<close> field: its string form.  (3) The payload is text: its first
  300 characters at most, exactly 300 for a longer text.  (4) Else, for a payload that is
  null, a boolean, a number, an array or an object with neither field: the status phrase,
  or \<^verbatim>\<open>Request failed\<close> when it is empty.  The payload
  \<^verbatim>\<open>{ detail: [{ msg: "bad field" }, "other"] }\<close> gives \<^verbatim>\<open>bad field; other\<close>.
\<close>

theorem error_message_precedence:
  assumes "\<not> ok res" and "parse_body res = (parsed, fx)"
  shows "normalize res =
      (failure (status res) (fst (extract_error res parsed)) (snd (extract_error res parsed)),
       fx @ [ConsoleError])
    \<and> (\<forall>kvs items. parsed = JObj kvs \<and> map_of kvs ''detail'' = Some (JArr items) \<longrightarrow>
          extract_error res parsed =
            (JStr (join ''; '' (map spec_item_text items)), Some (JArr items)))
    \<and> (\<forall>kvs s. parsed = JObj kvs \<and> map_of kvs ''detail'' = Some (JStr s) \<longrightarrow>
          extract_error res parsed = (JStr s, Some (JStr s)))
    \<and> (\<forall>kvs d. parsed = JObj kvs \<and> map_of kvs ''detail'' = Some (JObj d) \<longrightarrow>
          extract_error res parsed =
            (case map_of d ''msg'' of
               Some m \<Rightarrow> if truthy m then m else JStr (JSON_stringify (JObj d))
             | None \<Rightarrow> JStr (JSON_stringify (JObj d)),
             Some (JObj d)))
    \<and> (\<forall>kvs m. parsed = JObj kvs \<and> map_of kvs ''detail'' = None
          \<and> map_of kvs ''message'' = Some m \<longrightarrow>
          extract_error res parsed = (JStr (String_json m), None))
    \<and> (\<forall>s. parsed = JStr s \<longrightarrow>
          extract_error res parsed = (JStr (take 300 s), None)
          \<and> length (take 300 s) \<le> 300
          \<and> (300 < length s \<longrightarrow> length (take 300 s) = 300))
    \<and> (parsed = JNull \<or> (\<exists>b. parsed = JBool b) \<or> (\<exists>n. parsed = JNum n)
          \<or> (\<exists>xs. parsed = JArr xs)
          \<or> (\<exists>kvs. parsed = JObj kvs \<and> map_of kvs ''detail'' = None
                \<and> map_of kvs ''message'' = None) \<longrightarrow>
          extract_error res parsed = (status_phrase res, None))
    \<and> extract_error res
          (JObj [(''detail'', JArr [JObj [(''msg'', JStr ''bad field'')], JStr ''other''])])
        = (JStr ''bad field; other'',
           Some (JArr [JObj [(''msg'', JStr ''bad field'')], JStr ''other'']))"
proof -
  have env: "normalize res =
      (failure (status res) (fst (extract_error res parsed)) (snd (extract_error res parsed)),
       fx @ [ConsoleError])"
    using assms by (rule normalize_failure)
  have arr: "extract_error res (JObj kvs) =
      (JStr (join ''; '' (map spec_item_text items)), Some (JArr items))"
    if "map_of kvs ''detail'' = Some (JArr items)" for kvs items
    using that by (simp add: extract_error_def array_join_item_messages)
  have str: "extract_error res (JObj kvs) = (JStr s, Some (JStr s))"
    if "map_of kvs ''detail'' = Some (JStr s)" for kvs s
    using that by (simp add: extract_error_def)
  have obj: "extract_error res (JObj kvs) =
      (case map_of d ''msg'' of
         Some m \<Rightarrow> if truthy m then m else JStr (JSON_stringify (JObj d))
       | None \<Rightarrow> JStr (JSON_stringify (JObj d)),
       Some (JObj d))"
    if "map_of kvs ''detail'' = Some (JObj d)" for kvs d
    using that by (cases "map_of d ''msg''") (simp_all add: extract_error_def)
  have msg: "extract_error res (JObj kvs) = (JStr (String_json m), None)"
    if "map_of kvs ''detail'' = None" "map_of kvs ''message'' = Some m" for kvs m
    using that by (simp add: extract_error_def)
  have plain: "extract_error res (JStr s) = (JStr (take 300 s), None)
      \<and> length (take 300 s) \<le> 300 \<and> (300 < length s \<longrightarrow> length (take 300 s) = 300)" for s
    by (simp add: extract_error_def)
  have phrase: "extract_error res parsed = (status_phrase res, None)"
    if "parsed = JNull \<or> (\<exists>b. parsed = JBool b) \<or> (\<exists>n. parsed = JNum n)
          \<or> (\<exists>xs. parsed = JArr xs)
          \<or> (\<exists>kvs. parsed = JObj kvs \<and> map_of kvs ''detail'' = None
                \<and> map_of kvs ''message'' = None)"
    using that by (auto simp: extract_error_def status_phrase_def)
  have ex: "extract_error res
          (JObj [(''detail'', JArr [JObj [(''msg'', JStr ''bad field'')], JStr ''other''])])
        = (JStr ''bad field; other'',
           Some (JArr [JObj [(''msg'', JStr ''bad field'')], JStr ''other'']))"
    by (simp add: extract_error_def array_join_def item_message_def)
  from arr have arr': "\<forall>kvs items. parsed = JObj kvs
      \<and> map_of kvs ''detail'' = Some (JArr items) \<longrightarrow>
        extract_error res parsed =
          (JStr (join ''; '' (map spec_item_text items)), Some (JArr items))"
    by blast
  from str have str': "\<forall>kvs s. parsed = JObj kvs \<and> map_of kvs ''detail'' = Some (JStr s) \<longrightarrow>
      extract_error res parsed = (JStr s, Some (JStr s))"
    by blast
  from obj have obj': "\<forall>kvs d. parsed = JObj kvs \<and> map_of kvs ''detail'' = Some (JObj d) \<longrightarrow>
      extract_error res parsed =
        (case map_of d ''msg'' of
           Some m \<Rightarrow> if truthy m then m else JStr (JSON_stringify (JObj d))
         | None \<Rightarrow> JStr (JSON_stringify (JObj d)),
         Some (JObj d))"
    by blast
  from msg have msg': "\<forall>kvs m. parsed = JObj kvs \<and> map_of kvs ''detail'' = None
      \<and> map_of kvs ''message'' = Some m \<longrightarrow>
        extract_error res parsed = (JStr (String_json m), None)"
    by blast
  from plain have plain': "\<forall>s. parsed = JStr s \<longrightarrow>
      extract_error res parsed = (JStr (take 300 s), None)
      \<and> length (take 300 s) \<le> 300
      \<and> (300 < length s \<longrightarrow> length (take 300 s) = 300)"
    by blast
  from phrase have phrase': "parsed = JNull \<or> (\<exists>b. parsed = JBool b) \<or> (\<exists>n. parsed = JNum n)
          \<or> (\<exists>xs. parsed = JArr xs)
          \<or> (\<exists>kvs. parsed = JObj kvs \<and> map_of kvs ''detail'' = None
                \<and> map_of kvs ''message'' = None) \<longrightarrow>
          extract_error res parsed = (status_phrase res, None)"
    by blast
  from env arr' str' obj' msg' plain' phrase' ex show ?thesis
    by (intro conjI)
qed

theorem error_message_precedence_witness:
  "\<not> ok \<lparr>status = 400, statusText = ''Bad Request'', content_type = Some ''application/json'',
       json_body = Some (JObj [(''detail'', JArr [JObj [(''msg'', JStr ''bad field'')],
         JStr ''other''])]), text_body = None\<rparr>
   \<and> normalize \<lparr>status = 400, statusText = ''Bad Request'',
       content_type = Some ''application/json'',
       json_body = Some (JObj [(''detail'', JArr [JObj [(''msg'', JStr ''bad field'')],
         JStr ''other''])]), text_body = None\<rparr>
     = (failure 400 (JStr ''bad field; other'')
          (Some (JArr [JObj [(''msg'', JStr ''bad field'')], JStr ''other''])),
        [ReadJson, ConsoleError])
   \<and> normalize \<lparr>status = 409, statusText = ''Conflict'',
       content_type = Some ''application/json'',
       json_body = Some (JObj [(''detail'', JObj [(''msg'', JStr ''taken''), (''code'', JNum 7)])]),
       text_body = None\<rparr>
     = (failure 409 (JStr ''taken'') (Some (JObj [(''msg'', JStr ''taken''), (''code'', JNum 7)])),
        [ReadJson, ConsoleError])
   \<and> normalize \<lparr>status = 403, statusText = ''Forbidden'',
       content_type = Some ''application/json'',
       json_body = Some (JObj [(''message'', JBool False)]), text_body = None\<rparr>
     = (failure 403 (JStr ''false'') None, [ReadJson, ConsoleError])
   \<and> normalize \<lparr>status = 500, statusText = ''Internal Server Error'',
       content_type = Some ''text/plain'', json_body = None,
       text_body = Some (replicate 301 CHR ''x'')\<rparr>
     = (failure 500 (JStr (replicate 300 CHR ''x'')) None, [ReadText, ConsoleError])
   \<and> normalize \<lparr>status = 502, statusText = [], content_type = Some ''application/json'',
       json_body = None, text_body = None\<rparr>
     = (failure 502 (JStr ''Request failed'') None, [ReadJson, ConsoleError])"
proof -
  let ?r1 = "\<lparr>status = 400, statusText = ''Bad Request'',
       content_type = Some ''application/json'',
       json_body = Some (JObj [(''detail'', JArr [JObj [(''msg'', JStr ''bad field'')],
         JStr ''other''])]), text_body = None\<rparr>"
  let ?r2 = "\<lparr>status = 409, statusText = ''Conflict'',
       content_type = Some ''application/json'',
       json_body = Some (JObj [(''detail'', JObj [(''msg'', JStr ''taken''), (''code'', JNum 7)])]),
       text_body = None\<rparr>"
  let ?r3 = "\<lparr>status = 403, statusText = ''Forbidden'',
       content_type = Some ''application/json'',
       json_body = Some (JObj [(''message'', JBool False)]), text_body = None\<rparr>"
  let ?r4 = "\<lparr>status = 500, statusText = ''Internal Server Error'',
       content_type = Some ''text/plain'', json_body = None,
       text_body = Some (replicate 301 CHR ''x'')\<rparr>"
  let ?r5 = "\<lparr>status = 502, statusText = [], content_type = Some ''application/json'',
       json_body = None, text_body = None\<rparr>"
  have json: "str_includes (toLowerCase ''application/json'') ''application/json''"
    by code_simp
  have plain: "\<not> str_includes (toLowerCase ''text/plain'') ''application/json''"
    by code_simp
  have o1: "\<not> ok ?r1" by (simp add: ok_def)
  have p1: "parse_body ?r1 =
      (JObj [(''detail'', JArr [JObj [(''msg'', JStr ''bad field'')], JStr ''other''])],
       [ReadJson])"
    by (simp add: parse_body_def json)
  have o2: "\<not> ok ?r2" by (simp add: ok_def)
  have p2: "parse_body ?r2 =
      (JObj [(''detail'', JObj [(''msg'', JStr ''taken''), (''code'', JNum 7)])], [ReadJson])"
    by (simp add: parse_body_def json)
  have o3: "\<not> ok ?r3" by (simp add: ok_def)
  have p3: "parse_body ?r3 = (JObj [(''message'', JBool False)], [ReadJson])"
    by (simp add: parse_body_def json)
  have o4: "\<not> ok ?r4" by (simp add: ok_def)
  have p4: "parse_body ?r4 = (JStr (replicate 301 CHR ''x''), [ReadText])"
    by (simp add: parse_body_def plain)
  have o5: "\<not> ok ?r5" by (simp add: ok_def)
  have p5: "parse_body ?r5 = (JNull, [ReadJson])"
    by (simp add: parse_body_def json)
  from error_message_precedence [OF o1 p1]
  have n1: "normalize ?r1 = (failure 400 (JStr ''bad field; other'')
      (Some (JArr [JObj [(''msg'', JStr ''bad field'')], JStr ''other''])),
      [ReadJson, ConsoleError])"
    by (simp add: spec_item_text_def)
  from error_message_precedence [OF o2 p2]
  have n2: "normalize ?r2 = (failure 409 (JStr ''taken'')
      (Some (JObj [(''msg'', JStr ''taken''), (''code'', JNum 7)])), [ReadJson, ConsoleError])"
    by simp
  from error_message_precedence [OF o3 p3]
  have n3: "normalize ?r3 = (failure 403 (JStr ''false'') None, [ReadJson, ConsoleError])"
    by (simp add: show_bool_def)
  from error_message_precedence [OF o4 p4]
  have n4: "normalize ?r4 =
      (failure 500 (JStr (replicate 300 CHR ''x'')) None, [ReadText, ConsoleError])"
    by simp
  from error_message_precedence [OF o5 p5]
  have n5: "normalize ?r5 = (failure 502 (JStr ''Request failed'') None, [ReadJson, ConsoleError])"
    by (simp add: status_phrase_def)
  from o1 n1 n2 n3 n4 n5 show ?thesis by (intro conjI)
qed

text \<open>
  An element \<^verbatim>\<open>{ msg: "" }\<close> has a \<^verbatim>\<open>msg\<close> field, and yet the message is the serialized
  element, not the field.
\<close>

theorem error_message_empty_msg_counterexample:
  "map_of [(''msg'', JStr [])] ''msg'' = Some (JStr [])
   \<and> fst (normalize \<lparr>status = 400, statusText = ''Bad Request'',
        content_type = Some ''application/json'',
        json_body = Some (JObj [(''detail'', JArr [JObj [(''msg'', JStr [])]])]),
        text_body = None\<rparr>)
     = failure 400
         (JStr [CHR ''{'', CHR 0x22, CHR ''m'', CHR ''s'', CHR ''g'', CHR 0x22, CHR '':'',
                CHR 0x22, CHR 0x22, CHR ''}''])
         (Some (JArr [JObj [(''msg'', JStr [])]]))
   \<and> message (fst (normalize \<lparr>status = 400, statusText = ''Bad Request'',
        content_type = Some ''application/json'',
        json_body = Some (JObj [(''detail'', JArr [JObj [(''msg'', JStr [])]])]),
        text_body = None\<rparr>)) \<noteq> Some (JStr [])"
proof -
  have "fst (normalize \<lparr>status = 400, statusText = ''Bad Request'',
        content_type = Some ''application/json'',
        json_body = Some (JObj [(''detail'', JArr [JObj [(''msg'', JStr [])]])]),
        text_body = None\<rparr>)
     = failure 400
         (JStr [CHR ''{'', CHR 0x22, CHR ''m'', CHR ''s'', CHR ''g'', CHR 0x22, CHR '':'',
                CHR 0x22, CHR 0x22, CHR ''}''])
         (Some (JArr [JObj [(''msg'', JStr [])]]))"
    by code_simp
  then show ?thesis by (simp add: failure_def)
qed


lemma catch_block_nonnull:
  "e \<noteq> JNull \<Longrightarrow>
     catch_block e =
       Inr (failure 0
              (if opt_prop e ''name'' = Some (JStr ''AbortError'') then JStr ''Request aborted''
               else or_else (opt_prop e ''message'') (JStr ''Network error''))
              None)"
  by (simp add: catch_block_def failure_def Let_def)

lemma request_rejected_fetch:
  assumes "serializeBody api body = Inr b"
    and "await_fetch tr
           (0 < (case timeoutMs init of None \<Rightarrow> defaultTimeoutMs api | Some ms \<Rightarrow> ms))
           (listener_attached (signal init)) (controller_after_signals (signal init))
           (baseURL api @ path)
           \<lparr>f_method = method, f_body = b, f_cache = ''no-store'',
            f_headers = finalHeaders api init\<rparr> = Inl e"
  shows "fst (request api tr path method body init) = catch_block e"
  using try_block_fetched(1) [OF assms(1), of tr _ path "method" init] assms(2)
  by (simp add: request_fst)

text \<open>
  C7, as amended.  Take a request whose body was serialized, so that the call reached
  the transport.  If the timer was set and elapses before the transport settles, the
  caller's signal not being aborted already, the envelope is
  \<^verbatim>\<open>{ success: false, error: { status: 0, message: "Request aborted" } }\<close>.  If the
  caller's signal is aborted at the time of the call, or fires first while the call is
  pending, the composite carries the caller's reason: a reason named \<^verbatim>\<open>AbortError\<close>, as
  is the default reason, gives that same envelope; any other reason than null gives
  status 0 with the reason's \<^verbatim>\<open>message\<close> when it has one that is truthy and with
  \<^verbatim>\<open>Network error\<close> when it has none.  A transport failure without cancellation gives
  status 0 with the failure's message, or \<^verbatim>\<open>Network error\<close> when it is empty.  The
  message \<^verbatim>\<open>Request aborted\<close> differs from \<^verbatim>\<open>Network error\<close>.
\<close>

theorem cancelled_request_envelope:
  assumes "serializeBody api body = Inr b"
  shows "(0 < (case timeoutMs init of None \<Rightarrow> defaultTimeoutMs api | Some ms \<Rightarrow> ms)
          \<and> controller_after_signals (signal init) = None
          \<and> interrupt tr = Some TimerElapsed \<longrightarrow>
          fst (request api tr path method body init)
            = Inr (failure 0 (JStr ''Request aborted'') None))
    \<and> (\<forall>reason. (signal init = Some (Aborted reason)
            \<or> signal init = Some Pending \<and> interrupt tr = Some (SignalFired reason))
          \<and> opt_prop reason ''name'' = Some (JStr ''AbortError'') \<longrightarrow>
          fst (request api tr path method body init)
            = Inr (failure 0 (JStr ''Request aborted'') None))
    \<and> (\<forall>reason. (signal init = Some (Aborted reason)
            \<or> signal init = Some Pending \<and> interrupt tr = Some (SignalFired reason))
          \<and> reason \<noteq> JNull \<and> opt_prop reason ''name'' \<noteq> Some (JStr ''AbortError'') \<longrightarrow>
          fst (request api tr path method body init)
            = Inr (failure 0 (or_else (opt_prop reason ''message'') (JStr ''Network error''))
                     None))
    \<and> (\<forall>m. controller_after_signals (signal init) = None \<and> interrupt tr = None
          \<and> fetch tr (baseURL api @ path)
               \<lparr>f_method = method, f_body = b, f_cache = ''no-store'',
                f_headers = finalHeaders api init\<rparr> = FailsWith m \<longrightarrow>
          fst (request api tr path method body init)
            = Inr (failure 0 (JStr (if m = [] then ''Network error'' else m)) None))
    \<and> JStr ''Request aborted'' \<noteq> JStr ''Network error''"
proof -
  let ?t = "case timeoutMs init of None \<Rightarrow> defaultTimeoutMs api | Some ms \<Rightarrow> ms"
  let ?fi = "\<lparr>f_method = method, f_body = b, f_cache = ''no-store'',
               f_headers = finalHeaders api init\<rparr>"
  let ?await = "await_fetch tr (0 < ?t) (listener_attached (signal init))
      (controller_after_signals (signal init)) (baseURL api @ path) ?fi"
  note rejected = request_rejected_fetch [OF assms, of tr init path "method"]
  have timer: "fst (request api tr path method body init)
      = Inr (failure 0 (JStr ''Request aborted'') None)"
    if "0 < ?t" "controller_after_signals (signal init) = None"
      "interrupt tr = Some TimerElapsed"
  proof -
    from that have "?await = Inl AbortError" by (simp add: await_fetch_def)
    from rejected [OF this] show ?thesis
      by (simp add: catch_block_nonnull AbortError_def js_Error_def)
  qed
  have caller_reason: "?await = Inl reason"
    if "signal init = Some (Aborted reason)
        \<or> signal init = Some Pending \<and> interrupt tr = Some (SignalFired reason)" for reason
    using that
    by (auto simp: await_fetch_def controller_after_signals_def listener_attached_def)
  have named: "fst (request api tr path method body init)
      = Inr (failure 0 (JStr ''Request aborted'') None)"
    if "signal init = Some (Aborted reason)
        \<or> signal init = Some Pending \<and> interrupt tr = Some (SignalFired reason)"
      "opt_prop reason ''name'' = Some (JStr ''AbortError'')" for reason
  proof -
    from that(2) have "reason \<noteq> JNull" by auto
    with rejected [OF caller_reason [OF that(1)]] that(2) show ?thesis
      by (simp add: catch_block_nonnull)
  qed
  have other: "fst (request api tr path method body init)
      = Inr (failure 0 (or_else (opt_prop reason ''message'') (JStr ''Network error'')) None)"
    if "signal init = Some (Aborted reason)
        \<or> signal init = Some Pending \<and> interrupt tr = Some (SignalFired reason)"
      "reason \<noteq> JNull" "opt_prop reason ''name'' \<noteq> Some (JStr ''AbortError'')" for reason
    using rejected [OF caller_reason [OF that(1)]] that(2,3)
    by (simp add: catch_block_nonnull)
  have network: "fst (request api tr path method body init)
      = Inr (failure 0 (JStr (if m = [] then ''Network error'' else m)) None)"
    if "controller_after_signals (signal init) = None" "interrupt tr = None"
      "fetch tr (baseURL api @ path) ?fi = FailsWith m" for m
  proof -
    from that have "?await = Inl (js_Error ''TypeError'' m)" by (simp add: await_fetch_def)
    from rejected [OF this] show ?thesis
      by (simp add: catch_block_nonnull js_Error_def)
  qed
  from timer named other network show ?thesis by blast
qed

theorem cancelled_request_envelope_witness:
  "serializeBody (new_Api [] None None) VUndefined = Inr None
   \<and> 0 < (case timeoutMs (token_only None) of
            None \<Rightarrow> defaultTimeoutMs (new_Api [] None None) | Some ms \<Rightarrow> ms)
   \<and> controller_after_signals (signal (token_only None)) = None
   \<and> interrupt \<lparr>fetch = failing ''unreachable'', interrupt = Some TimerElapsed\<rparr>
       = Some TimerElapsed
   \<and> fst (request (new_Api [] None None)
            \<lparr>fetch = failing ''unreachable'', interrupt = Some TimerElapsed\<rparr>
            ''/slow'' GET VUndefined (token_only None))
       = Inr (failure 0 (JStr ''Request aborted'') None)
   \<and> fst (request (new_Api [] None None)
            \<lparr>fetch = failing ''unreachable'', interrupt = None\<rparr>
            ''/slow'' GET VUndefined
            \<lparr>token = None, headers = None, signal = Some (Aborted AbortError),
             timeoutMs = Some 0\<rparr>)
       = Inr (failure 0 (JStr ''Request aborted'') None)
   \<and> fst (request (new_Api [] None None)
            \<lparr>fetch = failing ''unreachable'',
             interrupt = Some (SignalFired (js_Error ''Error'' ''user left''))\<rparr>
            ''/slow'' GET VUndefined
            \<lparr>token = None, headers = None, signal = Some Pending, timeoutMs = None\<rparr>)
       = Inr (failure 0 (JStr ''user left'') None)
   \<and> fst (request (new_Api [] None None)
            \<lparr>fetch = failing ''fetch failed'', interrupt = None\<rparr>
            ''/slow'' GET VUndefined (token_only None))
       = Inr (failure 0 (JStr ''fetch failed'') None)"
proof -
  let ?api = "new_Api [] None None"
  have b: "serializeBody ?api VUndefined = Inr None"
    by (simp add: serializeBody_def)
  have t: "0 < (case timeoutMs (token_only None) of
            None \<Rightarrow> defaultTimeoutMs ?api | Some ms \<Rightarrow> ms)"
    by (simp add: token_only_def new_Api_def)
  have c: "controller_after_signals (signal (token_only None)) = None"
    by (simp add: token_only_def controller_after_signals_def)
  have i: "interrupt \<lparr>fetch = failing ''unreachable'', interrupt = Some TimerElapsed\<rparr>
       = Some TimerElapsed"
    by simp
  from cancelled_request_envelope [OF b, of "token_only None"
      "\<lparr>fetch = failing ''unreachable'', interrupt = Some TimerElapsed\<rparr>" "''/slow''" GET]
    t c i
  have timer: "fst (request ?api
      \<lparr>fetch = failing ''unreachable'', interrupt = Some TimerElapsed\<rparr>
      ''/slow'' GET VUndefined (token_only None))
    = Inr (failure 0 (JStr ''Request aborted'') None)"
    by blast
  have n: "opt_prop AbortError ''name'' = Some (JStr ''AbortError'')"
    by (simp add: AbortError_def js_Error_def)
  from cancelled_request_envelope [OF b,
      of "\<lparr>token = None, headers = None, signal = Some (Aborted AbortError),
            timeoutMs = Some 0\<rparr>"
      "\<lparr>fetch = failing ''unreachable'', interrupt = None\<rparr>" "''/slow''" GET] n
  have named: "fst (request ?api \<lparr>fetch = failing ''unreachable'', interrupt = None\<rparr>
      ''/slow'' GET VUndefined
      \<lparr>token = None, headers = None, signal = Some (Aborted AbortError), timeoutMs = Some 0\<rparr>)
    = Inr (failure 0 (JStr ''Request aborted'') None)"
    by simp
  have r: "js_Error ''Error'' ''user left'' \<noteq> JNull"
      "opt_prop (js_Error ''Error'' ''user left'') ''name'' \<noteq> Some (JStr ''AbortError'')"
      "or_else (opt_prop (js_Error ''Error'' ''user left'') ''message'') (JStr ''Network error'')
        = JStr ''user left''"
    by (simp_all add: js_Error_def)
  from cancelled_request_envelope [OF b,
      of "\<lparr>token = None, headers = None, signal = Some Pending, timeoutMs = None\<rparr>"
      "\<lparr>fetch = failing ''unreachable'',
        interrupt = Some (SignalFired (js_Error ''Error'' ''user left''))\<rparr>" "''/slow''" GET]
    r(1,2)
  have other: "fst (request ?api
      \<lparr>fetch = failing ''unreachable'',
       interrupt = Some (SignalFired (js_Error ''Error'' ''user left''))\<rparr>
      ''/slow'' GET VUndefined
      \<lparr>token = None, headers = None, signal = Some Pending, timeoutMs = None\<rparr>)
    = Inr (failure 0 (JStr ''user left'') None)"
    unfolding r(3) [symmetric] by simp
  from cancelled_request_envelope [OF b, of "token_only None"
      "\<lparr>fetch = failing ''fetch failed'', interrupt = None\<rparr>" "''/slow''" GET] c
  have network: "fst (request ?api \<lparr>fetch = failing ''fetch failed'', interrupt = None\<rparr>
      ''/slow'' GET VUndefined (token_only None))
    = Inr (failure 0 (JStr ''fetch failed'') None)"
    by (simp add: failing_def)
  from b t c i timer named other network show ?thesis by (intro conjI)
qed

text \<open>
  A caller's signal that fires with the reason \<^verbatim>\<open>"stop"\<close> while the call is pending is
  reported exactly as a network failure without a message is.
\<close>

theorem cancelled_by_caller_counterexample:
  "fst (request (new_Api [] None None)
          \<lparr>fetch = failing [], interrupt = Some (SignalFired (JStr ''stop''))\<rparr>
          ''/x'' GET VUndefined
          \<lparr>token = None, headers = None, signal = Some Pending, timeoutMs = None\<rparr>)
     = Inr (failure 0 (JStr ''Network error'') None)
   \<and> fst (request (new_Api [] None None)
          \<lparr>fetch = failing [], interrupt = None\<rparr>
          ''/x'' GET VUndefined
          \<lparr>token = None, headers = None, signal = None, timeoutMs = None\<rparr>)
     = Inr (failure 0 (JStr ''Network error'') None)"
  by (simp add: request_fst try_block_def serializeBody_def await_fetch_def
      listener_attached_def controller_after_signals_def failing_def catch_block_def
      js_Error_def failure_def new_Api_def Let_def)

lemma normalize_shape:
  "(error (fst (normalize res)) \<noteq> None) = (\<not> success (fst (normalize res)))"
  by (simp add: normalize_def Let_def split: prod.splits)

lemma await_fetch_unsignalled:
  assumes "await_fetch tr timer False None url fi = Inl e"
  shows "e = AbortError \<or> (\<exists>m. e = js_Error ''TypeError'' m)"
proof (cases "fetch tr url fi")
  case (Responds res)
  with assms show ?thesis
    by (simp add: await_fetch_def Let_def split: option.splits AbortEvent.splits if_splits)
next
  case (FailsWith m)
  with assms show ?thesis
    by (auto simp: await_fetch_def Let_def split: option.splits AbortEvent.splits if_splits)
qed

lemma request_without_signal:
  assumes "signal init = None" and "serializeBody api body \<noteq> Inl JNull"
  shows "\<exists>envelope. fst (request api tr path method body init) = Inr envelope
    \<and> (error envelope \<noteq> None) = (\<not> success envelope)"
proof (cases "serializeBody api body")
  case (Inl e)
  with assms(2) have "e \<noteq> JNull" by auto
  with Inl show ?thesis
    by (simp add: request_fst try_block_thrown catch_block_nonnull failure_def)
next
  case (Inr b)
  let ?t = "case timeoutMs init of None \<Rightarrow> defaultTimeoutMs api | Some ms \<Rightarrow> ms"
  let ?await = "await_fetch tr (0 < ?t) (listener_attached (signal init))
      (controller_after_signals (signal init)) (baseURL api @ path)
      \<lparr>f_method = method, f_body = b, f_cache = ''no-store'',
       f_headers = finalHeaders api init\<rparr>"
  show ?thesis
  proof (cases ?await)
    case (Inl e)
    with assms(1) have "await_fetch tr (0 < ?t) False None (baseURL api @ path)
        \<lparr>f_method = method, f_body = b, f_cache = ''no-store'',
         f_headers = finalHeaders api init\<rparr> = Inl e"
      by (simp add: controller_after_signals_def listener_attached_def)
    then have "e \<noteq> JNull"
      by (auto dest!: await_fetch_unsignalled simp: AbortError_def js_Error_def)
    with request_rejected_fetch [OF Inr Inl] show ?thesis
      by (simp add: catch_block_nonnull failure_def)
  next
    case inr: (Inr res)
    with try_block_fetched(1) [OF Inr, of tr "0 < ?t" path "method" init]
    have "fst (request api tr path method body init) = Inr (fst (normalize res))"
      by (simp add: request_fst)
    with normalize_shape [of res] show ?thesis by simp
  qed
qed

lemma verb_methods_return_envelope_unless_null:
  assumes "serializeBody api body \<noteq> Inl JNull"
  shows "(\<exists>envelope. fst (get api tr path params tok) = Inr envelope
      \<and> (error envelope \<noteq> None) = (\<not> success envelope))
   \<and> (\<exists>envelope. fst (post api tr path body tok) = Inr envelope
      \<and> (error envelope \<noteq> None) = (\<not> success envelope))
   \<and> (\<exists>envelope. fst (put api tr path body tok) = Inr envelope
      \<and> (error envelope \<noteq> None) = (\<not> success envelope))
   \<and> (\<exists>envelope. fst (patch api tr path body tok) = Inr envelope
      \<and> (error envelope \<noteq> None) = (\<not> success envelope))
   \<and> (\<exists>envelope. fst (delete api tr path tok) = Inr envelope
      \<and> (error envelope \<noteq> None) = (\<not> success envelope))
   \<and> (\<exists>envelope. fst (deleteWithBody api tr path body tok) = Inr envelope
      \<and> (error envelope \<noteq> None) = (\<not> success envelope))"
proof -
  have s: "signal (token_only tok) = None" by (simp add: token_only_def)
  have u: "serializeBody api VUndefined \<noteq> Inl JNull" by (simp add: serializeBody_def)
  show ?thesis
    unfolding get_def post_def put_def patch_def delete_def deleteWithBody_def
    by (intro conjI request_without_signal [OF s assms] request_without_signal [OF s u])
qed

text \<open>
  C1.  Every verb method is to return an envelope, whatever the transport and the
  serializer do.  It does so whenever the serializer does not throw null (the lemma
  above).  It does not on the body \<^verbatim>\<open>{ get a() { throw null } }\<close>: in each of the three
  modes the serializer runs the getter inside the \<^verbatim>\<open>try\<close> and throws null, the \<^verbatim>\<open>catch\<close>
  reads \<^verbatim>\<open>err.name\<close> on null, and \<^verbatim>\<open>post\<close> ends in a promise rejected with that
  \<^verbatim>\<open>TypeError\<close>, not in an envelope, before any request is sent.
\<close>

theorem post_rejects_on_thrown_null:
  "serializeBody (new_Api [] (Some ModeJson) None) (VThrowing JNull) = Inl JNull
   \<and> serializeBody (new_Api [] (Some ModeUrlencoded) None) (VThrowing JNull) = Inl JNull
   \<and> serializeBody (new_Api [] (Some ModeForm) None) (VThrowing JNull) = Inl JNull
   \<and> post (new_Api [] (Some ModeJson) None) \<lparr>fetch = failing [], interrupt = None\<rparr>
        ''/x'' (VThrowing JNull) None
     = (Inl (js_Error ''TypeError'' ''Cannot read properties of null''),
        [SetTimeout 30000, ClearTimeout])
   \<and> fst (post (new_Api [] (Some ModeUrlencoded) None)
        \<lparr>fetch = failing [], interrupt = None\<rparr> ''/x'' (VThrowing JNull) None)
     = Inl (js_Error ''TypeError'' ''Cannot read properties of null'')
   \<and> fst (post (new_Api [] (Some ModeForm) None)
        \<lparr>fetch = failing [], interrupt = None\<rparr> ''/x'' (VThrowing JNull) None)
     = Inl (js_Error ''TypeError'' ''Cannot read properties of null'')"
  by (simp add: post_def request_def try_block_def serializeBody_def new_Api_def
      token_only_def catch_block_def Let_def)

end
